theory Spec2Isabelle
  imports Main
begin

section \<open>Data model (types.ts)\<close>

text \<open>
  The interfaces of \<^verbatim>\<open>types.ts\<close> become records and its enums and string unions
  become datatypes. Record fields carry a prefix (\<^verbatim>\<open>u_\<close> for Unit, \<^verbatim>\<open>sl_\<close> for
  SupportLine, \<^verbatim>\<open>pa_\<close> for PendingAttack, \<^verbatim>\<open>a_\<close> for AIAction, \<^verbatim>\<open>gs_\<close> for
  GameState), because field selectors are global constants. Coordinates, move and attack
  budgets and strengths are whole numbers in the program and are modelled as \<^typ>\<open>int\<close>.
\<close>

datatype Player = PlayerSide | Computer

datatype Difficulty = DRandom | DEasy | DMedium | DHard

datatype UnitType = INFANTRY | ARCHER | CAVALRY

datatype Direction = NORTH | EAST | SOUTH | WEST

record Unit =
  u_id :: string
  u_type :: UnitType
  u_player :: Player
  u_x :: int
  u_y :: int
  u_rotation :: Direction
  u_movesLeft :: int
  u_attacksLeft :: int
  u_hasRotated :: bool
  u_maxMoves :: int
  u_hp :: int

datatype Axis = Row | Col

text \<open>
  A SupportLine object is declared with a \<^verbatim>\<open>player\<close> field, but an object literal cast
  with \<^verbatim>\<open>as SupportLine[]\<close> can lack it; reading the field then gives \<^verbatim>\<open>undefined\<close>.
  The field is therefore optional in the model, \<^term>\<open>None\<close> standing for a missing field.
\<close>

record SupportLine =
  sl_player :: "Player option"
  sl_type :: Axis
  sl_index :: int

record PendingAttack =
  pa_targetId :: string
  pa_attackerIds :: "string list"

datatype Turn = TurnPlayer | TurnComputer | SetupPlacement | SetupSupport | GameOver

record GameState =
  gs_gridSize :: int
  gs_difficulty :: Difficulty
  gs_units :: "Unit list"
  gs_playerSupport :: "SupportLine list"
  gs_computerSupport :: "SupportLine list"
  gs_turn :: Turn
  gs_winner :: "Player option"
  gs_selectedUnitId :: "string option"
  gs_logs :: "string list"
  gs_combatState :: "(string list \<times> string) option"
  gs_pendingAttack :: "PendingAttack option"
  gs_showComputerSupport :: bool

datatype ActionType = Move | Rotate | Attack | EndTurn

record AIAction =
  a_unitId :: string
  a_actionType :: ActionType
  a_target :: "(int \<times> int) option"
  a_direction :: "Direction option"

section \<open>Rules engine (services/gameLogic)\<close>

definition GRID_SIZE :: int where
  "GRID_SIZE = 7"

definition INITIAL_ARMY_COMPOSITION :: "UnitType list" where
  "INITIAL_ARMY_COMPOSITION = [INFANTRY, INFANTRY, ARCHER, ARCHER, CAVALRY, CAVALRY]"

fun getVectorForRotation :: "Direction \<Rightarrow> int \<times> int" where
  "getVectorForRotation NORTH = (0, -1)"
| "getVectorForRotation SOUTH = (0, 1)"
| "getVectorForRotation EAST = (1, 0)"
| "getVectorForRotation WEST = (-1, 0)"

definition getFlankBonus :: "Unit \<Rightarrow> Unit \<Rightarrow> int" where
  "getFlankBonus attacker defender =
     (if u_type attacker = ARCHER then 0
      else
        let dx = u_x attacker - u_x defender;
            dy = u_y attacker - u_y defender;
            (fx, fy) = getVectorForRotation (u_rotation defender)
        in if dx = fx \<and> dy = fy then 0 else 1)"

text \<open>The \<^verbatim>\<open>forEach\<close> of calculateBaseStrength, with the running strength as accumulator.\<close>

fun supportLoop :: "Unit \<Rightarrow> SupportLine list \<Rightarrow> int \<Rightarrow> int" where
  "supportLoop unit [] strength = strength"
| "supportLoop unit (sl # rest) strength =
     (let s1 = (if sl_type sl = Row \<and> sl_index sl = u_y unit then strength + 1 else strength);
          s2 = (if sl_type sl = Col \<and> sl_index sl = u_x unit then s1 + 1 else s1)
      in supportLoop unit rest s2)"

definition calculateBaseStrength :: "Unit \<Rightarrow> SupportLine list \<Rightarrow> int" where
  "calculateBaseStrength unit supportLines =
     (let mySupports = filter (\<lambda>sl. sl_player sl = Some (u_player unit)) supportLines
      in supportLoop unit mySupports 1)"

definition getUnitAt :: "Unit list \<Rightarrow> int \<Rightarrow> int \<Rightarrow> Unit option" where
  "getUnitAt units x y = find (\<lambda>u. u_x u = x \<and> u_y u = y) units"

definition isValidMove :: "Unit \<Rightarrow> int \<Rightarrow> int \<Rightarrow> Unit list \<Rightarrow> bool" where
  "isValidMove unit targetX targetY allUnits =
     (if targetX < 1 \<or> targetX > GRID_SIZE \<or> targetY < 1 \<or> targetY > GRID_SIZE then False
      else if getUnitAt allUnits targetX targetY \<noteq> None then False
      else
        let dx = targetX - u_x unit;
            dy = targetY - u_y unit;
            absDist = \<bar>dx\<bar> + \<bar>dy\<bar>
        in if absDist = 1 then True
           else if u_type unit = CAVALRY \<and> u_movesLeft unit \<ge> 2 \<and> absDist = 2 then
             (let (vx, vy) = getVectorForRotation (u_rotation unit)
              in if dx = vx * 2 \<and> dy = vy * 2 then
                   (let midX = u_x unit + vx; midY = u_y unit + vy
                    in if getUnitAt allUnits midX midY = None then True else False)
                 else False)
           else False)"

definition canRotate :: "Unit \<Rightarrow> bool" where
  "canRotate unit = (u_movesLeft unit > 0)"

text \<open>
  In canAttack the midpoint \<^verbatim>\<open>(attacker.x + defender.x) / 2\<close> is computed only when
  the target is two tiles away on a straight line, where both sums are even; the
  division is exact there and is written \<^term>\<open>(div)\<close>.
\<close>

definition canAttack :: "Unit \<Rightarrow> Unit \<Rightarrow> Unit list \<Rightarrow> bool" where
  "canAttack attacker defender allUnits =
     (if u_attacksLeft attacker \<le> 0 then False
      else if u_player attacker = u_player defender then False
      else
        let dxRaw = u_x defender - u_x attacker;
            dyRaw = u_y defender - u_y attacker;
            (facingX, facingY) = getVectorForRotation (u_rotation attacker);
            dotProduct = dxRaw * facingX + dyRaw * facingY
        in if dotProduct \<le> 0 then False
           else
             let dx = \<bar>dxRaw\<bar>; dy = \<bar>dyRaw\<bar>; dist = dx + dy
             in if u_type attacker = ARCHER then
                  (let isDiagonal = (dx = 1 \<and> dy = 1);
                       isLinearGap = ((dx = 2 \<and> dy = 0) \<or> (dx = 0 \<and> dy = 2));
                       isAdjacentToAnyEnemy =
                         list_ex (\<lambda>e. u_player e \<noteq> u_player attacker \<and>
                                      \<bar>u_x attacker - u_x e\<bar> + \<bar>u_y attacker - u_y e\<bar> = 1) allUnits
                   in if isAdjacentToAnyEnemy then False
                      else if isDiagonal \<or> isLinearGap then
                        (if isLinearGap \<and>
                            getUnitAt allUnits ((u_x attacker + u_x defender) div 2)
                                               ((u_y attacker + u_y defender) div 2) \<noteq> None
                         then False else True)
                      else False)
                else dist = 1)"

definition getValidAttackTargets :: "Unit \<Rightarrow> Unit list \<Rightarrow> Unit list" where
  "getValidAttackTargets unit allUnits =
     (let enemies = filter (\<lambda>u. u_player u \<noteq> u_player unit) allUnits
      in filter (\<lambda>enemy. canAttack unit enemy allUnits) enemies)"

text \<open>The \<^verbatim>\<open>for\<close> loop of isValidSupportPlacement, leaving at the first duplicate.\<close>

fun supportScan :: "SupportLine list \<Rightarrow> SupportLine \<Rightarrow> bool" where
  "supportScan [] newSupport = True"
| "supportScan (s # rest) newSupport =
     (if sl_type s = sl_type newSupport \<and> sl_index s = sl_index newSupport then False
      else supportScan rest newSupport)"

definition isValidSupportPlacement :: "SupportLine list \<Rightarrow> SupportLine \<Rightarrow> bool" where
  "isValidSupportPlacement supports newSupport =
     (if length supports \<ge> 3 then False else supportScan supports newSupport)"

subsection \<open>Text of the combat log\<close>

text \<open>Decimal rendering of a number inside a template literal.\<close>

definition digitChar :: "nat \<Rightarrow> char" where
  "digitChar d = ''0123456789'' ! d"

fun showNat :: "nat \<Rightarrow> string" where
  "showNat n = (if n < 10 then [digitChar n] else showNat (n div 10) @ [digitChar (n mod 10)])"

declare showNat.simps [simp del]

definition showInt :: "int \<Rightarrow> string" where
  "showInt i = (if i < 0 then ''-'' @ showNat (nat (- i)) else showNat (nat i))"

fun unitTypeName :: "UnitType \<Rightarrow> string" where
  "unitTypeName INFANTRY = ''Infantry''"
| "unitTypeName ARCHER = ''Archer''"
| "unitTypeName CAVALRY = ''Cavalry''"

fun joinWith :: "string \<Rightarrow> string list \<Rightarrow> string" where
  "joinWith sep [] = []"
| "joinWith sep [s] = s"
| "joinWith sep (s # t # rest) = s @ sep @ joinWith sep (t # rest)"

subsection \<open>Combat resolution\<close>

datatype Outcome = AttackerWins | DefenderWins | Tie

record CombatResult =
  cr_winner :: Outcome
  cr_log :: string
  cr_atkTotal :: int
  cr_defTotal :: int

text \<open>One pass of the attackers' \<^verbatim>\<open>forEach\<close>: the strength and the log part of one attacker.\<close>

definition attackerEntry :: "SupportLine list \<Rightarrow> Unit \<Rightarrow> Unit \<Rightarrow> int \<times> string" where
  "attackerEntry attackerSupport defender atk =
     (let strength0 = calculateBaseStrength atk attackerSupport;
          details0 = unitTypeName (u_type atk) @ ''('' @ showInt strength0;
          flank = getFlankBonus atk defender;
          strength1 = (if flank > 0 then strength0 + flank else strength0);
          details1 = (if flank > 0 then details0 @ ''+Flank'' else details0);
          charge = (u_type atk = CAVALRY \<and> u_movesLeft atk > 0);
          strength2 = (if charge then strength1 + 1 else strength1);
          details2 = (if charge then details1 @ ''+Charge'' else details1)
      in (strength2, details2 @ '')''))"

fun attackersLoop ::
  "SupportLine list \<Rightarrow> Unit \<Rightarrow> Unit list \<Rightarrow> int \<times> string list \<Rightarrow> int \<times> string list" where
  "attackersLoop attackerSupport defender [] acc = acc"
| "attackersLoop attackerSupport defender (atk # rest) (atkTotal, atkLogParts) =
     (let (strength, details) = attackerEntry attackerSupport defender atk
      in attackersLoop attackerSupport defender rest
           (atkTotal + strength, atkLogParts @ [details]))"

definition resolveCombat ::
  "Unit list \<Rightarrow> Unit \<Rightarrow> SupportLine list \<Rightarrow> SupportLine list \<Rightarrow> CombatResult" where
  "resolveCombat attackers defender attackerSupport defenderSupport =
     (let defBase = calculateBaseStrength defender defenderSupport;
          defDetails = ''[Base+Sup: '' @ showInt defBase @ '']'';
          defTotal = defBase;
          (atkTotal, atkLogParts) = attackersLoop attackerSupport defender attackers (0, []);
          log = ''COMBAT: '' @ joinWith '' + '' atkLogParts @ '' = '' @ showInt atkTotal
                @ '' vs Defender '' @ defDetails @ '' = '' @ showInt defTotal @ ''. ''
      in if u_type defender = ARCHER \<and> list_ex (\<lambda>a. u_type a \<noteq> ARCHER) attackers then
           \<lparr>cr_winner = AttackerWins, cr_log = ''Melee units overrun Archer! Auto-win.'',
            cr_atkTotal = atkTotal, cr_defTotal = 0\<rparr>
         else if atkTotal > defTotal then
           \<lparr>cr_winner = AttackerWins, cr_log = log @ ''Attackers win!'',
            cr_atkTotal = atkTotal, cr_defTotal = defTotal\<rparr>
         else if defTotal > atkTotal then
           (let isMeleeAttack = list_ex (\<lambda>u. u_type u \<noteq> ARCHER) attackers
            in if isMeleeAttack then
                 \<lparr>cr_winner = DefenderWins, cr_log = log @ ''Defender Repels Attack! Attackers Lost.'',
                  cr_atkTotal = atkTotal, cr_defTotal = defTotal\<rparr>
               else
                 \<lparr>cr_winner = Tie, cr_log = log @ ''Ranged Attack Failed.'',
                  cr_atkTotal = atkTotal, cr_defTotal = defTotal\<rparr>)
         else
           \<lparr>cr_winner = Tie, cr_log = log @ ''Stalemate.'',
            cr_atkTotal = atkTotal, cr_defTotal = defTotal\<rparr>)"

definition getCombatOutcome :: "Unit list \<Rightarrow> Unit \<Rightarrow> GameState \<Rightarrow> CombatResult" where
  "getCombatOutcome attackers defender gameState =
     resolveCombat attackers defender (gs_computerSupport gameState) (gs_playerSupport gameState)"

section \<open>Computer support placement (services/aiLogic.ts)\<close>

text \<open>
  getComputerSupportPlacement draws one of four fixed options with
  \<^verbatim>\<open>Math.floor(Math.random() * options.length)\<close>; the draw is a parameter of the model.
  The option literals have the fields \<^verbatim>\<open>type\<close> and \<^verbatim>\<open>index\<close> only and are returned
  through the cast \<^verbatim>\<open>as SupportLine[]\<close>, so no returned object has a \<^verbatim>\<open>player\<close> field.
\<close>

datatype RandomPick = Pick0 | Pick1 | Pick2 | Pick3

definition bareLine :: "Axis \<Rightarrow> int \<Rightarrow> SupportLine" where
  "bareLine t i = \<lparr>sl_player = None, sl_type = t, sl_index = i\<rparr>"

fun getComputerSupportPlacement :: "RandomPick \<Rightarrow> SupportLine list" where
  "getComputerSupportPlacement Pick0 = [bareLine Col 3, bareLine Col 4, bareLine Col 5]"
| "getComputerSupportPlacement Pick1 = [bareLine Row 3, bareLine Row 4, bareLine Row 5]"
| "getComputerSupportPlacement Pick2 = [bareLine Col 4, bareLine Row 3, bareLine Row 5]"
| "getComputerSupportPlacement Pick3 = [bareLine Row 4, bareLine Col 3, bareLine Col 5]"

section \<open>Game controller (App.tsx)\<close>

text \<open>
  The component keeps the GameState and three further pieces of state. Every handler is
  modelled as a function from the state before the event to the state after it: the
  functional updates \<^verbatim>\<open>setGameState(prev => ...)\<close> of one handler are composed in the
  order in which they are queued, and the timers that only delay an update are dropped.
  \<^verbatim>\<open>generateId()\<close> is random; the generated id is a parameter.
\<close>

record AppState =
  app_gameState :: GameState
  app_setupUnitsLeft :: "UnitType list"
  app_isProcessingAI :: bool
  app_aiPlan :: "AIAction list option"

definition initialGameState :: GameState where
  \<open>initialGameState =
     \<lparr>gs_gridSize = GRID_SIZE, gs_difficulty = DMedium, gs_units = [],
      gs_playerSupport = [], gs_computerSupport = [], gs_turn = SetupPlacement,
      gs_winner = None, gs_selectedUnitId = None,
      gs_logs = [''Welcome to "Skrimish 7x7"'',
                 ''Place your units in the blue zone (Bottom 2 rows).''],
      gs_combatState = None, gs_pendingAttack = None, gs_showComputerSupport = False\<rparr>\<close>

definition initialAppState :: AppState where
  "initialAppState =
     \<lparr>app_gameState = initialGameState, app_setupUnitsLeft = INITIAL_ARMY_COMPOSITION,
      app_isProcessingAI = False, app_aiPlan = None\<rparr>"

definition maxMovesFor :: "UnitType \<Rightarrow> int" where
  "maxMovesFor t = (if t = CAVALRY then 2 else 1)"

text \<open>
  The initial computer setup: \<^verbatim>\<open>placements\<close> is the shuffled list of the six zone
  tiles and \<^verbatim>\<open>ids\<close> gives the generated id of the unit at each index.
\<close>

definition computerZone :: "(int \<times> int) list" where
  "computerZone = [(3, 1), (4, 1), (5, 1), (3, 2), (4, 2), (5, 2)]"

definition newComputerUnit :: "string \<Rightarrow> UnitType \<Rightarrow> int \<times> int \<Rightarrow> Unit" where
  "newComputerUnit i t p =
     \<lparr>u_id = i, u_type = t, u_player = Computer, u_x = fst p, u_y = snd p,
      u_rotation = SOUTH, u_movesLeft = maxMovesFor t, u_attacksLeft = 1,
      u_hasRotated = False, u_maxMoves = maxMovesFor t, u_hp = 1\<rparr>"

definition initialComputerSetup ::
  "GameState \<Rightarrow> (int \<times> int) list \<Rightarrow> (nat \<Rightarrow> string) \<Rightarrow> RandomPick \<Rightarrow> GameState" where
  "initialComputerSetup prev placements ids pick =
     (let compTypes = INITIAL_ARMY_COMPOSITION;
          compUnits = map (\<lambda>idx. newComputerUnit (ids idx) (compTypes ! idx) (placements ! idx))
                        (filter (\<lambda>idx. idx < length placements) [0..<length compTypes]);
          compSupport = getComputerSupportPlacement pick
      in prev\<lparr>gs_units := gs_units prev @ compUnits, gs_computerSupport := compSupport\<rparr>)"

definition addLog :: "GameState \<Rightarrow> string \<Rightarrow> GameState" where
  "addLog prev msg = prev\<lparr>gs_logs := gs_logs prev @ [msg]\<rparr>"

definition findUnit :: "Unit list \<Rightarrow> string \<Rightarrow> Unit option" where
  "findUnit units i = find (\<lambda>u. u_id u = i) units"

definition selectedUnitOf :: "GameState \<Rightarrow> Unit option" where
  "selectedUnitOf gameState =
     (case gs_selectedUnitId gameState of
        None \<Rightarrow> None
      | Some i \<Rightarrow> findUnit (gs_units gameState) i)"

subsection \<open>Setup\<close>

definition handleSetupPlacement :: "AppState \<Rightarrow> int \<Rightarrow> int \<Rightarrow> string \<Rightarrow> AppState" where
  "handleSetupPlacement app x y newId =
     (let gameState = app_gameState app in
      case app_setupUnitsLeft app of
        [] \<Rightarrow> app
      | t # rest \<Rightarrow>
          if y < 6 \<or> x < 3 \<or> x > 5 then
            app\<lparr>app_gameState := addLog gameState ''Invalid placement zone (Bottom center 2x3).''\<rparr>
          else if getUnitAt (gs_units gameState) x y \<noteq> None then
            app\<lparr>app_gameState := addLog gameState ''Tile occupied.''\<rparr>
          else
            let newUnit = \<lparr>u_id = newId, u_type = t, u_player = PlayerSide, u_x = x, u_y = y,
                           u_rotation = NORTH, u_movesLeft = maxMovesFor t, u_attacksLeft = 1,
                           u_hasRotated = False, u_maxMoves = maxMovesFor t, u_hp = 1\<rparr>;
                gs1 = gameState\<lparr>gs_units := gs_units gameState @ [newUnit]\<rparr>;
                gs2 = (if length (app_setupUnitsLeft app) = 1 then
                         (addLog gs1
                            ''Units placed. Toggle 3 secret support lines using the board headers.'')
                           \<lparr>gs_turn := SetupSupport\<rparr>
                       else gs1)
            in app\<lparr>app_gameState := gs2, app_setupUnitsLeft := rest\<rparr>)"

fun removeFirst :: "('a \<Rightarrow> bool) \<Rightarrow> 'a list \<Rightarrow> 'a list" where
  "removeFirst P [] = []"
| "removeFirst P (z # zs) = (if P z then zs else z # removeFirst P zs)"

definition toggleSupport :: "GameState \<Rightarrow> Axis \<Rightarrow> int \<Rightarrow> GameState" where
  "toggleSupport gameState t i =
     (if gs_turn gameState \<noteq> SetupSupport then gameState
      else if list_ex (\<lambda>s. sl_type s = t \<and> sl_index s = i) (gs_playerSupport gameState) then
        gameState\<lparr>gs_playerSupport :=
          removeFirst (\<lambda>s. sl_type s = t \<and> sl_index s = i) (gs_playerSupport gameState)\<rparr>
      else if length (gs_playerSupport gameState) \<ge> 3 then
        addLog gameState ''Max 3 supports allowed. Deselect one first.''
      else
        let newS = \<lparr>sl_player = Some PlayerSide, sl_type = t, sl_index = i\<rparr>
        in if isValidSupportPlacement (gs_playerSupport gameState) newS then
             gameState\<lparr>gs_playerSupport := gs_playerSupport gameState @ [newS]\<rparr>
           else
             addLog gameState ''Invalid support placement (Adjacent parallel lines not allowed).'')"

definition finishSetup :: "GameState \<Rightarrow> GameState" where
  "finishSetup gameState =
     (if length (gs_playerSupport gameState) \<noteq> 3 then
        addLog gameState ''You must select exactly 3 support lines.''
      else addLog (gameState\<lparr>gs_turn := TurnPlayer\<rparr>) ''Game Start! Your Turn.'')"

subsection \<open>Moving and rotating\<close>

definition autoRotation :: "Unit \<Rightarrow> int \<Rightarrow> int \<Rightarrow> Direction" where
  "autoRotation unit x y =
     (if y < u_y unit then NORTH
      else if x > u_x unit then EAST
      else if y > u_y unit then SOUTH
      else if x < u_x unit then WEST
      else u_rotation unit)"

definition executeMove :: "GameState \<Rightarrow> Unit \<Rightarrow> int \<Rightarrow> int \<Rightarrow> int \<Rightarrow> GameState" where
  "executeMove prev unit x y cost =
     (let newRotation = autoRotation unit x y
      in prev\<lparr>gs_units :=
           map (\<lambda>u. if u_id u = u_id unit then
                      u\<lparr>u_x := x, u_y := y, u_rotation := newRotation,
                        u_movesLeft := u_movesLeft u - cost, u_hasRotated := False\<rparr>
                    else u)
               (gs_units prev)\<rparr>)"

fun directionIndex :: "Direction \<Rightarrow> nat" where
  "directionIndex NORTH = 0"
| "directionIndex EAST = 1"
| "directionIndex SOUTH = 2"
| "directionIndex WEST = 3"

definition directionOfIndex :: "nat \<Rightarrow> Direction" where
  "directionOfIndex n = (if n = 0 then NORTH else if n = 1 then EAST else if n = 2 then SOUTH else WEST)"

datatype Side = TurnLeft | TurnRight

definition executeRotate :: "GameState \<Rightarrow> Side \<Rightarrow> GameState" where
  "executeRotate gameState direction =
     (case selectedUnitOf gameState of
        None \<Rightarrow> gameState
      | Some unit \<Rightarrow>
          if (case gs_pendingAttack gameState of
                None \<Rightarrow> False
              | Some pa \<Rightarrow> u_id unit \<in> set (pa_attackerIds pa)) then
            addLog gameState ''Cannot rotate while preparing to attack.''
          else if \<not> canRotate unit then
            addLog gameState ''Cannot rotate (Need at least 1 move remaining).''
          else
            gameState\<lparr>gs_units :=
              map (\<lambda>u. if u_id u = u_id unit then
                         u\<lparr>u_rotation :=
                             (if direction = TurnLeft
                              then directionOfIndex ((directionIndex (u_rotation u) + 3) mod 4)
                              else directionOfIndex ((directionIndex (u_rotation u) + 1) mod 4)),
                           u_hasRotated := True\<rparr>
                       else u)
                  (gs_units gameState)\<rparr>)"

subsection \<open>Selecting, targeting and moving by tile click\<close>

definition pendingTargetIs :: "GameState \<Rightarrow> string \<Rightarrow> bool" where
  "pendingTargetIs gameState i =
     (case gs_pendingAttack gameState of None \<Rightarrow> False | Some pa \<Rightarrow> pa_targetId pa = i)"

definition pendingIncludes :: "GameState \<Rightarrow> string \<Rightarrow> bool" where
  "pendingIncludes gameState i =
     (case gs_pendingAttack gameState of None \<Rightarrow> False | Some pa \<Rightarrow> i \<in> set (pa_attackerIds pa))"

definition addPendingAttacker :: "GameState \<Rightarrow> string \<Rightarrow> GameState" where
  "addPendingAttacker prev i =
     prev\<lparr>gs_pendingAttack :=
       map_option (\<lambda>pa. pa\<lparr>pa_attackerIds := pa_attackerIds pa @ [i]\<rparr>) (gs_pendingAttack prev)\<rparr>"

definition removePendingAttacker :: "GameState \<Rightarrow> string \<Rightarrow> GameState" where
  "removePendingAttacker prev i =
     prev\<lparr>gs_pendingAttack :=
       map_option (\<lambda>pa. pa\<lparr>pa_attackerIds := filter (\<lambda>j. j \<noteq> i) (pa_attackerIds pa)\<rparr>)
         (gs_pendingAttack prev)\<rparr>"

text \<open>Scenario 1 of handleGameInteraction: the clicked tile holds a computer unit.\<close>

definition clickEnemy :: "GameState \<Rightarrow> Unit option \<Rightarrow> Unit \<Rightarrow> GameState" where
  "clickEnemy gameState selectedUnit clickedUnit =
     (let newAttackerIds =
            (case selectedUnit of
               None \<Rightarrow> []
             | Some su \<Rightarrow>
                 if canAttack su clickedUnit (gs_units gameState) then [u_id su] else [])
      in if newAttackerIds = [] \<and> pendingTargetIs gameState (u_id clickedUnit) then gameState
         else if pendingTargetIs gameState (u_id clickedUnit) then
           (case selectedUnit of
              None \<Rightarrow> gameState
            | Some su \<Rightarrow>
                if \<not> pendingIncludes gameState (u_id su)
                   \<and> canAttack su clickedUnit (gs_units gameState) then
                  addLog (addPendingAttacker gameState (u_id su))
                    (unitTypeName (u_type su) @ '' added to attack plan.'')
                else gameState)
         else if newAttackerIds \<noteq> [] then
           addLog
             (gameState\<lparr>gs_pendingAttack :=
                Some \<lparr>pa_targetId = u_id clickedUnit, pa_attackerIds = newAttackerIds\<rparr>\<rparr>)
             (''Targeting '' @ unitTypeName (u_type clickedUnit) @ ''. Add more units or Confirm.'')
         else addLog gameState ''Select one of your units first to initiate attack.'')"

text \<open>Scenario 2: the clicked tile holds a unit of the player.\<close>

definition clickOwn :: "GameState \<Rightarrow> Unit \<Rightarrow> GameState" where
  "clickOwn gameState clickedUnit =
     (let joins =
            (case gs_pendingAttack gameState of
               None \<Rightarrow> False
             | Some pa \<Rightarrow>
                 (case findUnit (gs_units gameState) (pa_targetId pa) of
                    None \<Rightarrow> False
                  | Some target \<Rightarrow> canAttack clickedUnit target (gs_units gameState)))
      in if joins then
           (let gs1 = (if pendingIncludes gameState (u_id clickedUnit) then
                         addLog (removePendingAttacker gameState (u_id clickedUnit))
                           (unitTypeName (u_type clickedUnit) @ '' removed from attack.'')
                       else
                         addLog (addPendingAttacker gameState (u_id clickedUnit))
                           (unitTypeName (u_type clickedUnit) @ '' joining attack.''))
            in gs1\<lparr>gs_selectedUnitId := Some (u_id clickedUnit)\<rparr>)
         else gameState\<lparr>gs_selectedUnitId := Some (u_id clickedUnit)\<rparr>)"

text \<open>Scenario 3: the clicked tile is empty and a unit is selected.\<close>

definition clickEmpty :: "GameState \<Rightarrow> Unit \<Rightarrow> int \<Rightarrow> int \<Rightarrow> GameState" where
  "clickEmpty gameState selectedUnit x y =
     (if pendingIncludes gameState (u_id selectedUnit) then
        addLog gameState ''Unit is preparing to attack. Cancel attack to move.''
      else if isValidMove selectedUnit x y (gs_units gameState) then
        (let dist = \<bar>u_x selectedUnit - x\<bar> + \<bar>u_y selectedUnit - y\<bar>
         in if u_movesLeft selectedUnit \<ge> dist then executeMove gameState selectedUnit x y dist
            else addLog gameState ''Not enough moves left.'')
      else gameState\<lparr>gs_selectedUnitId := None\<rparr>)"

definition handleGameInteraction :: "GameState \<Rightarrow> int \<Rightarrow> int \<Rightarrow> GameState" where
  "handleGameInteraction gameState x y =
     (let clickedUnit = getUnitAt (gs_units gameState) x y;
          selectedUnit = selectedUnitOf gameState
      in case clickedUnit of
           Some cu \<Rightarrow>
             (if u_player cu = Computer then clickEnemy gameState selectedUnit cu
              else clickOwn gameState cu)
         | None \<Rightarrow>
             (case selectedUnit of
                Some su \<Rightarrow> clickEmpty gameState su x y
              | None \<Rightarrow> gameState))"

definition handleTileClick :: "AppState \<Rightarrow> int \<Rightarrow> int \<Rightarrow> string \<Rightarrow> AppState" where
  "handleTileClick app x y newId =
     (if gs_winner (app_gameState app) \<noteq> None \<or> app_isProcessingAI app \<or> app_aiPlan app \<noteq> None
      then app
      else if gs_turn (app_gameState app) = SetupPlacement then handleSetupPlacement app x y newId
      else if gs_turn (app_gameState app) = TurnPlayer then
        app\<lparr>app_gameState := handleGameInteraction (app_gameState app) x y\<rparr>
      else app)"

subsection \<open>Resolving the player's attack\<close>

definition checkWinCondition :: "GameState \<Rightarrow> GameState" where
  "checkWinCondition prev =
     (let playerUnits = filter (\<lambda>u. u_player u = PlayerSide) (gs_units prev);
          computerUnits = filter (\<lambda>u. u_player u = Computer) (gs_units prev)
      in if length playerUnits = 0 then
           prev\<lparr>gs_winner := Some Computer, gs_turn := GameOver,
                gs_logs := gs_logs prev @ [''Defeat! Computer wins.'']\<rparr>
         else if length computerUnits = 0 then
           prev\<lparr>gs_winner := Some PlayerSide, gs_turn := GameOver,
                gs_logs := gs_logs prev @ [''Victory! You win.'']\<rparr>
         else prev)"

text \<open>The update of executeMultiAttack that resolves the combat on the current state.\<close>

definition resolveMultiAttack :: "GameState \<Rightarrow> Unit list \<Rightarrow> Unit \<Rightarrow> GameState" where
  "resolveMultiAttack prev attackers defender =
     (let curAttackers = filter (\<lambda>u. u_id u \<in> set (map u_id attackers)) (gs_units prev);
          curDefender = findUnit (gs_units prev) (u_id defender)
      in case curDefender of
           None \<Rightarrow> prev\<lparr>gs_combatState := None\<rparr>
         | Some def \<Rightarrow>
             if length curAttackers = 0 then prev\<lparr>gs_combatState := None\<rparr>
             else
               let result = resolveCombat curAttackers def
                              (gs_playerSupport prev) (gs_computerSupport prev);
                   spent = map (\<lambda>u. if list_ex (\<lambda>atk. u_id atk = u_id u) curAttackers then
                                       u\<lparr>u_attacksLeft := 0, u_movesLeft := max 0 (u_movesLeft u)\<rparr>
                                     else u)
                               (gs_units prev);
                   newUnits =
                     (if cr_winner result = AttackerWins then
                        filter (\<lambda>u. u_id u \<noteq> u_id def) spent
                      else if cr_winner result = DefenderWins then
                        filter (\<lambda>u. u_id u \<notin> set (map u_id curAttackers)) spent
                      else spent)
               in prev\<lparr>gs_units := newUnits, gs_selectedUnitId := None, gs_combatState := None,
                       gs_logs := gs_logs prev @ [cr_log result]\<rparr>)"

text \<open>
  executeMultiAttack clears the pending attack, shows the combat, resolves it and, through
  \<^verbatim>\<open>setTimeout(checkWinCondition, 100)\<close>, checks the win condition.
\<close>

definition executeMultiAttack :: "GameState \<Rightarrow> Unit list \<Rightarrow> Unit \<Rightarrow> GameState" where
  "executeMultiAttack gameState attackers defender =
     (let gs1 = gameState\<lparr>gs_pendingAttack := None\<rparr>;
          gs2 = gs1\<lparr>gs_combatState := Some (map u_id attackers, u_id defender)\<rparr>;
          gs3 = resolveMultiAttack gs2 attackers defender
      in checkWinCondition gs3)"

definition confirmPendingAttack :: "GameState \<Rightarrow> GameState" where
  "confirmPendingAttack gameState =
     (case gs_pendingAttack gameState of
        None \<Rightarrow> gameState
      | Some pa \<Rightarrow>
          if length (pa_attackerIds pa) = 0 then gameState
          else
            let target = findUnit (gs_units gameState) (pa_targetId pa);
                attackers = filter (\<lambda>u. u_id u \<in> set (pa_attackerIds pa)) (gs_units gameState)
            in case target of
                 None \<Rightarrow> gameState\<lparr>gs_pendingAttack := None\<rparr>
               | Some t \<Rightarrow>
                   if length attackers = 0 then gameState\<lparr>gs_pendingAttack := None\<rparr>
                   else executeMultiAttack gameState attackers t)"

definition cancelPendingAttack :: "GameState \<Rightarrow> GameState" where
  "cancelPendingAttack gameState = addLog (gameState\<lparr>gs_pendingAttack := None\<rparr>) ''Attack cancelled.''"

subsection \<open>Ending the player's turn\<close>

definition resetBudget :: "Unit \<Rightarrow> Unit" where
  "resetBudget u = u\<lparr>u_movesLeft := u_maxMoves u, u_attacksLeft := 1, u_hasRotated := False\<rparr>"

definition endPlayerTurn :: "GameState \<Rightarrow> GameState" where
  "endPlayerTurn prev =
     (let resetUnits = map (\<lambda>u. if u_player u = PlayerSide then resetBudget u else u) (gs_units prev)
      in prev\<lparr>gs_units := resetUnits, gs_turn := TurnComputer, gs_selectedUnitId := None,
              gs_pendingAttack := None, gs_combatState := None\<rparr>)"

subsection \<open>Executing the computer's plan\<close>

text \<open>
  runComputerTurn walks through the plan, stops at the first \<^verbatim>\<open>end_turn\<close> entry, and
  then cleans up. The attack branch reads the state through \<^verbatim>\<open>gameStateRef\<close>, which
  holds the state of the latest render, starts the combat animation and resolves the
  combat in a second update.
\<close>

definition applyMoveAction :: "GameState \<Rightarrow> AIAction \<Rightarrow> int \<times> int \<Rightarrow> GameState" where
  "applyMoveAction current action target =
     (case findUnit (gs_units current) (a_unitId action) of
        None \<Rightarrow> current
      | Some unit \<Rightarrow>
          if getUnitAt (gs_units current) (fst target) (snd target) \<noteq> None then current
          else
            let newRotation = autoRotation unit (fst target) (snd target);
                dist = \<bar>u_x unit - fst target\<bar> + \<bar>u_y unit - snd target\<bar>
            in current\<lparr>gs_units :=
                 map (\<lambda>u. if u_id u = u_id unit then
                            u\<lparr>u_x := fst target, u_y := snd target, u_rotation := newRotation,
                              u_movesLeft := max 0 (u_movesLeft u - dist)\<rparr>
                          else u)
                     (gs_units current)\<rparr>)"

definition applyRotateAction :: "GameState \<Rightarrow> AIAction \<Rightarrow> Direction \<Rightarrow> GameState" where
  "applyRotateAction current action direction =
     (case findUnit (gs_units current) (a_unitId action) of
        None \<Rightarrow> current
      | Some unit \<Rightarrow>
          current\<lparr>gs_units :=
            map (\<lambda>u. if u_id u = u_id unit then u\<lparr>u_rotation := direction\<rparr> else u)
                (gs_units current)\<rparr>)"

definition resolveComputerAttack :: "GameState \<Rightarrow> AIAction \<Rightarrow> int \<times> int \<Rightarrow> GameState" where
  "resolveComputerAttack prev action target =
     (case findUnit (gs_units prev) (a_unitId action) of
        None \<Rightarrow> prev\<lparr>gs_combatState := None\<rparr>
      | Some atk \<Rightarrow>
          (case getUnitAt (gs_units prev) (fst target) (snd target) of
             None \<Rightarrow> prev\<lparr>gs_combatState := None\<rparr>
           | Some def \<Rightarrow>
               let res = resolveCombat [atk] def (gs_computerSupport prev) (gs_playerSupport prev);
                   removed =
                     (if cr_winner res = AttackerWins then
                        filter (\<lambda>u. u_id u \<noteq> u_id def) (gs_units prev)
                      else if cr_winner res = DefenderWins then
                        filter (\<lambda>u. u_id u \<noteq> u_id atk) (gs_units prev)
                      else gs_units prev);
                   newUnits =
                     (if list_ex (\<lambda>u. u_id u = u_id atk) removed then
                        map (\<lambda>u. if u_id u = u_id atk then u\<lparr>u_attacksLeft := 0\<rparr> else u) removed
                      else removed)
               in prev\<lparr>gs_units := newUnits, gs_combatState := None,
                       gs_logs := gs_logs prev @ [cr_log res]\<rparr>))"

definition applyAttackAction :: "GameState \<Rightarrow> AIAction \<Rightarrow> int \<times> int \<Rightarrow> GameState" where
  "applyAttackAction current action target =
     (case findUnit (gs_units current) (a_unitId action) of
        None \<Rightarrow> current
      | Some attacker \<Rightarrow>
          (case getUnitAt (gs_units current) (fst target) (snd target) of
             None \<Rightarrow> current
           | Some defender \<Rightarrow>
               resolveComputerAttack
                 (current\<lparr>gs_combatState := Some ([u_id attacker], u_id defender)\<rparr>)
                 action target))"

definition applyAIAction :: "GameState \<Rightarrow> AIAction \<Rightarrow> GameState" where
  "applyAIAction current action =
     (case a_actionType action of
        Move \<Rightarrow>
          (case a_target action of
             Some target \<Rightarrow> applyMoveAction current action target
           | None \<Rightarrow> current)
      | Rotate \<Rightarrow>
          (case a_direction action of
             Some direction \<Rightarrow> applyRotateAction current action direction
           | None \<Rightarrow> current)
      | Attack \<Rightarrow>
          (case a_target action of
             Some target \<Rightarrow> applyAttackAction current action target
           | None \<Rightarrow> current)
      | EndTurn \<Rightarrow> current)"

fun applyPlan :: "GameState \<Rightarrow> AIAction list \<Rightarrow> GameState" where
  "applyPlan current [] = current"
| "applyPlan current (action # rest) =
     (if a_actionType action = EndTurn then current
      else applyPlan (applyAIAction current action) rest)"

definition cleanupComputerTurn :: "GameState \<Rightarrow> GameState" where
  "cleanupComputerTurn prev =
     (let resetUnits = map (\<lambda>u. if u_player u = Computer then resetBudget u else u) (gs_units prev);
          playerAlive = list_ex (\<lambda>u. u_player u = PlayerSide) resetUnits;
          compAlive = list_ex (\<lambda>u. u_player u = Computer) resetUnits;
          logs0 = gs_logs prev @ [''Your Turn.''];
          winner1 = (if \<not> playerAlive then Some Computer else None);
          turn1 = (if \<not> playerAlive then GameOver else TurnPlayer);
          logs1 = (if \<not> playerAlive then logs0 @ [''Computer Wins!''] else logs0);
          winner2 = (if \<not> compAlive then Some PlayerSide else winner1);
          turn2 = (if \<not> compAlive then GameOver else turn1);
          logs2 = (if \<not> compAlive then logs1 @ [''You Win!''] else logs1)
      in prev\<lparr>gs_units := resetUnits, gs_turn := turn2, gs_winner := winner2, gs_logs := logs2,
              gs_combatState := None\<rparr>)"

definition runComputerTurn :: "AppState \<Rightarrow> AppState" where
  "runComputerTurn app =
     (case app_aiPlan app of
        None \<Rightarrow> app
      | Some plan \<Rightarrow>
          app\<lparr>app_gameState := cleanupComputerTurn (applyPlan (app_gameState app) plan),
              app_aiPlan := None, app_isProcessingAI := False\<rparr>)"

section \<open>Example positions\<close>

definition exampleUnit ::
  "string \<Rightarrow> UnitType \<Rightarrow> Player \<Rightarrow> int \<Rightarrow> int \<Rightarrow> Direction \<Rightarrow> int \<Rightarrow> int \<Rightarrow> Unit" where
  "exampleUnit i t p x y r moves attacks =
     \<lparr>u_id = i, u_type = t, u_player = p, u_x = x, u_y = y, u_rotation = r,
      u_movesLeft = moves, u_attacksLeft = attacks, u_hasRotated = False,
      u_maxMoves = maxMovesFor t, u_hp = 1\<rparr>"

definition exampleState :: "Unit list \<Rightarrow> GameState" where
  "exampleState units =
     \<lparr>gs_gridSize = GRID_SIZE, gs_difficulty = DMedium, gs_units = units,
      gs_playerSupport = [], gs_computerSupport = [], gs_turn = TurnPlayer,
      gs_winner = None, gs_selectedUnitId = None, gs_logs = [],
      gs_combatState = None, gs_pendingAttack = None, gs_showComputerSupport = False\<rparr>"

definition exampleIds :: "nat \<Rightarrow> string" where
  "exampleIds n = ''c'' @ showNat n"

section \<open>Properties of the rules engine\<close>

lemma getUnitAt_None_iff:
  "getUnitAt us x y = None \<longleftrightarrow> (\<forall>u\<in>set us. \<not> (u_x u = x \<and> u_y u = y))"
  by (auto simp add: getUnitAt_def find_None_iff)

text \<open>
  Claim C5. canAttack is false when the attacker has no attack left, when both units are
  on the same side, or when the dot product of the displacement to the defender with the
  attacker's facing vector is not strictly positive. Past these gates a non-Archer attacks
  exactly at Manhattan distance 1, and an Archer attacks exactly at diagonal adjacency or
  across a straight two-tile gap whose middle tile is empty, and never while it stands at
  Manhattan distance 1 from any enemy.
\<close>

theorem canAttack_iff:
  "canAttack a d us \<longleftrightarrow>
     0 < u_attacksLeft a \<and> u_player a \<noteq> u_player d \<and>
     0 < (u_x d - u_x a) * fst (getVectorForRotation (u_rotation a))
         + (u_y d - u_y a) * snd (getVectorForRotation (u_rotation a)) \<and>
     (if u_type a = ARCHER then
        \<not> (\<exists>e\<in>set us. u_player e \<noteq> u_player a \<and> \<bar>u_x a - u_x e\<bar> + \<bar>u_y a - u_y e\<bar> = 1) \<and>
        ((\<bar>u_x d - u_x a\<bar> = 1 \<and> \<bar>u_y d - u_y a\<bar> = 1) \<or>
         ((\<bar>u_x d - u_x a\<bar>, \<bar>u_y d - u_y a\<bar>) = (2, 0) \<or>
          (\<bar>u_x d - u_x a\<bar>, \<bar>u_y d - u_y a\<bar>) = (0, 2)) \<and>
         (\<forall>u\<in>set us. \<not> (u_x u = (u_x a + u_x d) div 2 \<and> u_y u = (u_y a + u_y d) div 2)))
      else \<bar>u_x d - u_x a\<bar> + \<bar>u_y d - u_y a\<bar> = 1)"
  by (cases "getVectorForRotation (u_rotation a)")
     (simp add: canAttack_def Let_def getUnitAt_None_iff list_ex_iff
           del: getVectorForRotation.simps)

theorem canAttack_iff_witness:
  "canAttack (exampleUnit ''a'' ARCHER PlayerSide 4 6 NORTH 1 1)
             (exampleUnit ''d'' INFANTRY Computer 4 4 SOUTH 1 1)
             [exampleUnit ''a'' ARCHER PlayerSide 4 6 NORTH 1 1,
              exampleUnit ''d'' INFANTRY Computer 4 4 SOUTH 1 1]
   \<and> \<not> canAttack (exampleUnit ''a'' INFANTRY PlayerSide 4 6 NORTH 1 1)
               (exampleUnit ''d'' ARCHER Computer 4 4 SOUTH 1 1)
               [exampleUnit ''a'' INFANTRY PlayerSide 4 6 NORTH 1 1,
                exampleUnit ''d'' ARCHER Computer 4 4 SOUTH 1 1]"
  using canAttack_iff [of "exampleUnit ''a'' ARCHER PlayerSide 4 6 NORTH 1 1"
                          "exampleUnit ''d'' INFANTRY Computer 4 4 SOUTH 1 1"
                          "[exampleUnit ''a'' ARCHER PlayerSide 4 6 NORTH 1 1,
                            exampleUnit ''d'' INFANTRY Computer 4 4 SOUTH 1 1]"]
        canAttack_iff [of "exampleUnit ''a'' INFANTRY PlayerSide 4 6 NORTH 1 1"
                          "exampleUnit ''d'' ARCHER Computer 4 4 SOUTH 1 1"
                          "[exampleUnit ''a'' INFANTRY PlayerSide 4 6 NORTH 1 1,
                            exampleUnit ''d'' ARCHER Computer 4 4 SOUTH 1 1]"]
  by (simp add: exampleUnit_def)

text \<open>
  Claim C6. isValidMove holds exactly when the target lies in [1,7] x [1,7], no unit stands
  on it, and either it is at Manhattan distance 1, or the unit is Cavalry with at least two
  moves left, the target is the unit's position plus twice its facing vector, and the tile
  in between is free. Every other target is rejected.
\<close>

theorem isValidMove_iff:
  "isValidMove unit tx ty us \<longleftrightarrow>
     (1 \<le> tx \<and> tx \<le> 7 \<and> 1 \<le> ty \<and> ty \<le> 7) \<and>
     (\<forall>u\<in>set us. \<not> (u_x u = tx \<and> u_y u = ty)) \<and>
     (\<bar>tx - u_x unit\<bar> + \<bar>ty - u_y unit\<bar> = 1 \<or>
      (u_type unit = CAVALRY \<and> u_movesLeft unit \<ge> 2 \<and>
       tx = u_x unit + 2 * fst (getVectorForRotation (u_rotation unit)) \<and>
       ty = u_y unit + 2 * snd (getVectorForRotation (u_rotation unit)) \<and>
       (\<forall>u\<in>set us. \<not> (u_x u = u_x unit + fst (getVectorForRotation (u_rotation unit)) \<and>
                         u_y u = u_y unit + snd (getVectorForRotation (u_rotation unit))))))"
  by (cases "u_rotation unit")
     (auto simp: isValidMove_def GRID_SIZE_def getUnitAt_None_iff Let_def)

theorem isValidMove_iff_witness:
  "isValidMove (exampleUnit ''c'' CAVALRY PlayerSide 4 6 NORTH 2 1) 4 4
               [exampleUnit ''c'' CAVALRY PlayerSide 4 6 NORTH 2 1]
   \<and> \<not> isValidMove (exampleUnit ''c'' CAVALRY PlayerSide 4 6 NORTH 2 1) 5 5
                 [exampleUnit ''c'' CAVALRY PlayerSide 4 6 NORTH 2 1]
   \<and> \<not> isValidMove (exampleUnit ''c'' CAVALRY PlayerSide 4 6 NORTH 1 1) 4 4
                 [exampleUnit ''c'' CAVALRY PlayerSide 4 6 NORTH 1 1]"
  using isValidMove_iff [of "exampleUnit ''c'' CAVALRY PlayerSide 4 6 NORTH 2 1" 4 4
                            "[exampleUnit ''c'' CAVALRY PlayerSide 4 6 NORTH 2 1]"]
        isValidMove_iff [of "exampleUnit ''c'' CAVALRY PlayerSide 4 6 NORTH 2 1" 5 5
                            "[exampleUnit ''c'' CAVALRY PlayerSide 4 6 NORTH 2 1]"]
        isValidMove_iff [of "exampleUnit ''c'' CAVALRY PlayerSide 4 6 NORTH 1 1" 4 4
                            "[exampleUnit ''c'' CAVALRY PlayerSide 4 6 NORTH 1 1]"]
  by (simp add: exampleUnit_def)

lemma attackersLoop_total:
  "fst (attackersLoop sa d as acc) = fst acc + sum_list (map (\<lambda>a. fst (attackerEntry sa d a)) as)"
proof (induction as arbitrary: acc)
  case Nil
  then show ?case by simp
next
  case (Cons a as)
  obtain t parts where acc: "acc = (t, parts)" by (cases acc)
  show ?case
    by (simp add: acc Cons.IH split_beta Let_def)
qed

lemma attackerEntry_strength:
  "fst (attackerEntry sa d a) =
     calculateBaseStrength a sa
     + (if u_type a = ARCHER \<or> (u_x a - u_x d, u_y a - u_y d) = getVectorForRotation (u_rotation d)
        then 0 else 1)
     + (if u_type a = CAVALRY \<and> u_movesLeft a > 0 then 1 else 0)"
  by (cases "getVectorForRotation (u_rotation d)")
     (simp add: attackerEntry_def getFlankBonus_def Let_def del: getVectorForRotation.simps)

lemma resolveCombat_atkTotal:
  "cr_atkTotal (resolveCombat as d sa sd) = fst (attackersLoop sa d as (0, []))"
  by (simp add: resolveCombat_def Let_def split_beta)

text \<open>
  Claim C7. The attackers' total reported by resolveCombat is the sum, over the attackers,
  of base strength plus flank bonus plus charge bonus. The flank bonus is 0 when the
  attacker is an Archer or when the displacement from the defender to the attacker equals
  the defender's facing vector, and 1 otherwise. The charge bonus is 1 exactly for a
  Cavalry attacker that has moves left when the combat is resolved.
\<close>

theorem atkTotal_sum:
  "cr_atkTotal (resolveCombat as d sa sd) =
     (\<Sum>a\<leftarrow>as. calculateBaseStrength a sa
        + (if u_type a = ARCHER \<or> (u_x a - u_x d, u_y a - u_y d) = getVectorForRotation (u_rotation d)
           then 0 else 1)
        + (if u_type a = CAVALRY \<and> u_movesLeft a > 0 then 1 else 0))"
  by (simp only: resolveCombat_atkTotal attackersLoop_total attackerEntry_strength fst_conv add_0)

lemma supportLoop_count:
  "supportLoop u sls s =
     s + int (length (filter (\<lambda>sl. (sl_type sl = Row \<and> sl_index sl = u_y u)
                                  \<or> (sl_type sl = Col \<and> sl_index sl = u_x u)) sls))"
  by (induction sls arbitrary: s) (auto simp: Let_def)

text \<open>
  Claim C8. calculateBaseStrength is 1 plus the number of support lines that are owned by
  the unit's side and lie on the unit's row or column. A unit on the crossing of one own
  row line and one own column line has strength 3.
\<close>

theorem calculateBaseStrength_count:
  "calculateBaseStrength u sls =
     1 + int (length (filter (\<lambda>sl. sl_player sl = Some (u_player u) \<and>
                 ((sl_type sl = Row \<and> sl_index sl = u_y u)
                  \<or> (sl_type sl = Col \<and> sl_index sl = u_x u))) sls))
   \<and> calculateBaseStrength u
       [\<lparr>sl_player = Some (u_player u), sl_type = Row, sl_index = u_y u\<rparr>,
        \<lparr>sl_player = Some (u_player u), sl_type = Col, sl_index = u_x u\<rparr>] = 3"
  by (simp add: calculateBaseStrength_def supportLoop_count del: supportLoop.simps)

lemma supportScan_iff:
  "supportScan sups n \<longleftrightarrow> \<not> (\<exists>s\<in>set sups. sl_type s = sl_type n \<and> sl_index s = sl_index n)"
  by (induction sups) auto

text \<open>
  Claim C9. isValidSupportPlacement rejects the candidate exactly when the list already
  holds three or more lines or holds a line with the candidate's axis and index. A
  candidate whose index differs by 1 from the lines of its axis is accepted.
\<close>

theorem isValidSupportPlacement_iff:
  "(\<not> isValidSupportPlacement sups n \<longleftrightarrow>
      length sups \<ge> 3 \<or> (\<exists>s\<in>set sups. sl_type s = sl_type n \<and> sl_index s = sl_index n)) \<and>
   (length sups < 3 \<and> (\<forall>s\<in>set sups. sl_type s = sl_type n \<longrightarrow> \<bar>sl_index s - sl_index n\<bar> = 1)
      \<longrightarrow> isValidSupportPlacement sups n)"
  by (auto simp: isValidSupportPlacement_def supportScan_iff)

theorem isValidSupportPlacement_iff_witness:
  "length [\<lparr>sl_player = Some PlayerSide, sl_type = Row, sl_index = 3\<rparr>] < 3
   \<and> isValidSupportPlacement [\<lparr>sl_player = Some PlayerSide, sl_type = Row, sl_index = 3\<rparr>]
        \<lparr>sl_player = Some PlayerSide, sl_type = Row, sl_index = 4\<rparr>
   \<and> \<not> isValidSupportPlacement [\<lparr>sl_player = Some PlayerSide, sl_type = Row, sl_index = 3\<rparr>]
        \<lparr>sl_player = Some PlayerSide, sl_type = Row, sl_index = 3\<rparr>"
  using isValidSupportPlacement_iff
          [of "[\<lparr>sl_player = Some PlayerSide, sl_type = Row, sl_index = 3\<rparr>]"
              "\<lparr>sl_player = Some PlayerSide, sl_type = Row, sl_index = 4\<rparr>"]
        isValidSupportPlacement_iff
          [of "[\<lparr>sl_player = Some PlayerSide, sl_type = Row, sl_index = 3\<rparr>]"
              "\<lparr>sl_player = Some PlayerSide, sl_type = Row, sl_index = 3\<rparr>"]
  by simp

section \<open>Properties of combat resolution\<close>

lemma checkWinCondition_units: "gs_units (checkWinCondition gs) = gs_units gs"
  by (simp add: checkWinCondition_def Let_def)

lemma resolveCombat_winner:
  "cr_winner (resolveCombat as d sa sd) =
     (if u_type d = ARCHER \<and> (\<exists>a\<in>set as. u_type a \<noteq> ARCHER) then AttackerWins
      else if cr_atkTotal (resolveCombat as d sa sd) > calculateBaseStrength d sd then AttackerWins
      else if calculateBaseStrength d sd > cr_atkTotal (resolveCombat as d sa sd) then
        (if (\<exists>a\<in>set as. u_type a \<noteq> ARCHER) then DefenderWins else Tie)
      else Tie)"
  by (simp add: resolveCombat_def Let_def split_beta list_ex_iff)

lemma resolveCombat_defTotal:
  "cr_defTotal (resolveCombat as d sa sd) =
     (if u_type d = ARCHER \<and> (\<exists>a\<in>set as. u_type a \<noteq> ARCHER) then 0
      else calculateBaseStrength d sd)"
  by (auto simp add: resolveCombat_def Let_def split_beta list_ex_iff)

lemma findUnit_Some_id: "findUnit us i = Some u \<Longrightarrow> u_id u = i \<and> u \<in> set us"
  by (auto simp: findUnit_def find_Some_iff)

lemma ids_filter_map:
  assumes "\<And>u. u_id (f u) = u_id u"
  shows "map u_id (filter (\<lambda>u. Q (u_id u)) (map f us)) = filter Q (map u_id us)"
  by (induction us) (simp_all add: assms)

lemma ids_map:
  assumes "\<And>u. u_id (f u) = u_id u"
  shows "map u_id (map f us) = map u_id us"
  by (induction us) (simp_all add: assms)

lemma executeMultiAttack_units:
  assumes "findUnit (gs_units gs) (u_id defender) = Some def"
    and "filter (\<lambda>u. u_id u \<in> set (map u_id attackers)) (gs_units gs) = cur"
    and "cur \<noteq> []"
  shows "map u_id (gs_units (executeMultiAttack gs attackers defender)) =
     (case cr_winner (resolveCombat cur def (gs_playerSupport gs) (gs_computerSupport gs)) of
        AttackerWins \<Rightarrow> filter (\<lambda>i. i \<noteq> u_id defender) (map u_id (gs_units gs))
      | DefenderWins \<Rightarrow> filter (\<lambda>i. i \<notin> set (map u_id cur)) (map u_id (gs_units gs))
      | Tie \<Rightarrow> map u_id (gs_units gs))"
proof -
  define spend :: "Unit \<Rightarrow> Unit" where "spend = (\<lambda>u. if list_ex (\<lambda>atk. u_id atk = u_id u) cur
      then u\<lparr>u_attacksLeft := 0, u_movesLeft := max 0 (u_movesLeft u)\<rparr> else u)"
  have sid: "u_id (spend u) = u_id u" for u by (simp add: spend_def)
  have idd: "u_id def = u_id defender" using assms(1) by (simp add: findUnit_Some_id)
  have a: "map u_id (filter (\<lambda>u. u_id u \<noteq> u_id defender) (map spend (gs_units gs)))
             = filter (\<lambda>i. i \<noteq> u_id defender) (map u_id (gs_units gs))"
    by (rule ids_filter_map [where Q = "\<lambda>i. i \<noteq> u_id defender"]) (rule sid)
  have b: "map u_id (filter (\<lambda>u. u_id u \<notin> set (map u_id cur)) (map spend (gs_units gs)))
             = filter (\<lambda>i. i \<notin> set (map u_id cur)) (map u_id (gs_units gs))"
    by (rule ids_filter_map [where Q = "\<lambda>i. i \<notin> set (map u_id cur)"]) (rule sid)
  have c: "map u_id (map spend (gs_units gs)) = map u_id (gs_units gs)"
    by (rule ids_map) (rule sid)
  have e: "gs_units (executeMultiAttack gs attackers defender) =
     (case cr_winner (resolveCombat cur def (gs_playerSupport gs) (gs_computerSupport gs)) of
        AttackerWins \<Rightarrow> filter (\<lambda>u. u_id u \<noteq> u_id defender) (map spend (gs_units gs))
      | DefenderWins \<Rightarrow> filter (\<lambda>u. u_id u \<notin> set (map u_id cur)) (map spend (gs_units gs))
      | Tie \<Rightarrow> map spend (gs_units gs))"
    using assms
    by (cases "cr_winner (resolveCombat cur def (gs_playerSupport gs) (gs_computerSupport gs))")
       (simp_all add: executeMultiAttack_def resolveMultiAttack_def checkWinCondition_units
          Let_def idd spend_def del: set_map)
  show ?thesis
    unfolding e
    by (cases "cr_winner (resolveCombat cur def (gs_playerSupport gs) (gs_computerSupport gs))")
       (simp_all only: Outcome.case a b c)
qed

text \<open>
  Claim C2. resolveCombat reports the attackers as winners with a defender total of 0 when
  the defender is an Archer and some attacker is not; otherwise the side with the greater
  total wins, except that a lost attack of Archers only, like equal totals, is a tie.
  When the player's attack is resolved on the current attackers and defender: if
  the defender is an Archer and some attacker is not, the attackers win, the defender's
  total is reported as 0 and the defender is removed. Otherwise the defender is removed
  when the attackers' total is greater; all attackers are removed when the defender's total
  is greater and some attacker is not an Archer; and no unit is removed when the defender's
  total is greater and all attackers are Archers, or when the totals are equal.
\<close>

theorem resolveCombat_outcome:
  assumes "findUnit (gs_units gs) (u_id defender) = Some def"
    and "filter (\<lambda>u. u_id u \<in> set (map u_id attackers)) (gs_units gs) = cur"
    and "cur \<noteq> []"
    and "r = resolveCombat cur def (gs_playerSupport gs) (gs_computerSupport gs)"
    and "ids' = map u_id (gs_units (executeMultiAttack gs attackers defender))"
    and "defTotal = calculateBaseStrength def (gs_computerSupport gs)"
  shows "(u_type def = ARCHER \<and> (\<exists>a\<in>set cur. u_type a \<noteq> ARCHER) \<longrightarrow>
            cr_winner r = AttackerWins \<and> cr_defTotal r = 0 \<and>
            ids' = filter (\<lambda>i. i \<noteq> u_id def) (map u_id (gs_units gs)) \<and> u_id def \<notin> set ids')
       \<and> (\<not> (u_type def = ARCHER \<and> (\<exists>a\<in>set cur. u_type a \<noteq> ARCHER)) \<longrightarrow>
            cr_defTotal r = defTotal \<and>
            (cr_atkTotal r > defTotal \<longrightarrow>
               ids' = filter (\<lambda>i. i \<noteq> u_id def) (map u_id (gs_units gs)) \<and> u_id def \<notin> set ids') \<and>
            (defTotal > cr_atkTotal r \<and> (\<exists>a\<in>set cur. u_type a \<noteq> ARCHER) \<longrightarrow>
               ids' = filter (\<lambda>i. i \<notin> set (map u_id cur)) (map u_id (gs_units gs)) \<and>
               (\<forall>a\<in>set cur. u_id a \<notin> set ids')) \<and>
            ((defTotal > cr_atkTotal r \<and> (\<forall>a\<in>set cur. u_type a = ARCHER)) \<or> cr_atkTotal r = defTotal \<longrightarrow>
               ids' = map u_id (gs_units gs)))
       \<and> cr_winner (resolveCombat as0 d0 sa sd) =
           (if u_type d0 = ARCHER \<and> (\<exists>a\<in>set as0. u_type a \<noteq> ARCHER) then AttackerWins
            else if cr_atkTotal (resolveCombat as0 d0 sa sd) > calculateBaseStrength d0 sd
              then AttackerWins
            else if calculateBaseStrength d0 sd > cr_atkTotal (resolveCombat as0 d0 sa sd)
              then (if (\<exists>a\<in>set as0. u_type a \<noteq> ARCHER) then DefenderWins else Tie)
            else Tie)
       \<and> cr_defTotal (resolveCombat as0 d0 sa sd) =
           (if u_type d0 = ARCHER \<and> (\<exists>a\<in>set as0. u_type a \<noteq> ARCHER) then 0
            else calculateBaseStrength d0 sd)"
proof -
  have idd: "u_id def = u_id defender" using assms(1) by (simp add: findUnit_Some_id)
  note u = executeMultiAttack_units [OF assms(1) assms(2) assms(3)]
  show ?thesis
    unfolding assms(4) assms(5) assms(6) u
    by (auto simp add: resolveCombat_winner resolveCombat_defTotal idd)
qed

theorem resolveCombat_outcome_witness:
  "findUnit (gs_units (exampleState [exampleUnit ''a'' INFANTRY PlayerSide 4 5 NORTH 1 1,
                                     exampleUnit ''d'' ARCHER Computer 4 4 SOUTH 1 1])) ''d''
     = Some (exampleUnit ''d'' ARCHER Computer 4 4 SOUTH 1 1)
   \<and> cr_winner (resolveCombat [exampleUnit ''a'' INFANTRY PlayerSide 4 5 NORTH 1 1]
                  (exampleUnit ''d'' ARCHER Computer 4 4 SOUTH 1 1) [] []) = AttackerWins
   \<and> cr_defTotal (resolveCombat [exampleUnit ''a'' INFANTRY PlayerSide 4 5 NORTH 1 1]
                  (exampleUnit ''d'' ARCHER Computer 4 4 SOUTH 1 1) [] []) = 0
   \<and> map u_id (gs_units (executeMultiAttack
         (exampleState [exampleUnit ''a'' INFANTRY PlayerSide 4 5 NORTH 1 1,
                        exampleUnit ''d'' ARCHER Computer 4 4 SOUTH 1 1])
         [exampleUnit ''a'' INFANTRY PlayerSide 4 5 NORTH 1 1]
         (exampleUnit ''d'' ARCHER Computer 4 4 SOUTH 1 1))) = [''a'']"
proof -
  let ?a = "exampleUnit ''a'' INFANTRY PlayerSide 4 5 NORTH 1 1"
  let ?d = "exampleUnit ''d'' ARCHER Computer 4 4 SOUTH 1 1"
  let ?gs = "exampleState [?a, ?d]"
  have h1: "findUnit (gs_units ?gs) (u_id ?d) = Some ?d"
    by (simp add: findUnit_def exampleState_def exampleUnit_def)
  have h2: "filter (\<lambda>u. u_id u \<in> set (map u_id [?a])) (gs_units ?gs) = [?a]"
    by (simp add: exampleState_def exampleUnit_def)
  have h3: "[?a] \<noteq> []" by simp
  have ps: "gs_playerSupport ?gs = []" "gs_computerSupport ?gs = []" "gs_units ?gs = [?a, ?d]"
    by (simp_all add: exampleState_def)
  have ty: "u_type ?d = ARCHER" "u_type ?a = INFANTRY" "u_id ?a = ''a''" "u_id ?d = ''d''"
    by (simp_all add: exampleUnit_def)
  from resolveCombat_outcome [OF h1 h2 h3 refl refl refl] h1
  show ?thesis
    by (simp add: ps ty)
qed

section \<open>Properties of turn handling\<close>

text \<open>
  Claim C3, as stated, fails: ending the player's turn leaves the computer's units, the
  side about to act, with the budgets they had, and refreshes the budgets of the player's
  own units.
\<close>

theorem endPlayerTurn_counterexample:
  "gs_units (endPlayerTurn (exampleState [exampleUnit ''p'' INFANTRY PlayerSide 4 6 NORTH 0 0,
                                          exampleUnit ''c'' INFANTRY Computer 4 2 SOUTH 0 0]))
     = [exampleUnit ''p'' INFANTRY PlayerSide 4 6 NORTH 1 1,
        exampleUnit ''c'' INFANTRY Computer 4 2 SOUTH 0 0]
   \<and> gs_turn (endPlayerTurn (exampleState [exampleUnit ''p'' INFANTRY PlayerSide 4 6 NORTH 0 0,
                                          exampleUnit ''c'' INFANTRY Computer 4 2 SOUTH 0 0]))
     = TurnComputer
   \<and> u_movesLeft (exampleUnit ''c'' INFANTRY Computer 4 2 SOUTH 0 0)
       \<noteq> u_maxMoves (exampleUnit ''c'' INFANTRY Computer 4 2 SOUTH 0 0)
   \<and> u_attacksLeft (exampleUnit ''c'' INFANTRY Computer 4 2 SOUTH 0 0) \<noteq> 1
   \<and> exampleUnit ''p'' INFANTRY PlayerSide 4 6 NORTH 1 1
       \<noteq> exampleUnit ''p'' INFANTRY PlayerSide 4 6 NORTH 0 0"
  by (simp add: endPlayerTurn_def exampleState_def exampleUnit_def resetBudget_def maxMovesFor_def)

text \<open>
  Claim C3, amended. Ending a turn resets the units of the side that ends its turn to
  movesLeft = maxMoves and attacksLeft = 1 and leaves the other side's units as they are.
  endPlayerTurn clears the pending attack and hands the turn to the computer; the cleanup
  of the computer's turn keeps the pending attack and hands the turn to the player when
  both sides still have units.
\<close>

theorem endTurn_resets_ending_side:
  "gs_units (endPlayerTurn gs) =
     map (\<lambda>u. if u_player u = PlayerSide
               then u\<lparr>u_movesLeft := u_maxMoves u, u_attacksLeft := 1, u_hasRotated := False\<rparr>
               else u) (gs_units gs)
   \<and> gs_pendingAttack (endPlayerTurn gs) = None
   \<and> gs_turn (endPlayerTurn gs) = TurnComputer
   \<and> gs_units (cleanupComputerTurn gs) =
     map (\<lambda>u. if u_player u = Computer
               then u\<lparr>u_movesLeft := u_maxMoves u, u_attacksLeft := 1, u_hasRotated := False\<rparr>
               else u) (gs_units gs)
   \<and> gs_pendingAttack (cleanupComputerTurn gs) = gs_pendingAttack gs
   \<and> gs_turn (cleanupComputerTurn gs) =
       (if (\<exists>u\<in>set (gs_units gs). u_player u = PlayerSide)
         \<and> (\<exists>u\<in>set (gs_units gs). u_player u = Computer) then TurnPlayer else GameOver)"
proof -
  have a: "gs_units (endPlayerTurn gs) =
     map (\<lambda>u. if u_player u = PlayerSide
               then u\<lparr>u_movesLeft := u_maxMoves u, u_attacksLeft := 1, u_hasRotated := False\<rparr>
               else u) (gs_units gs)"
    by (simp add: endPlayerTurn_def resetBudget_def Let_def)
  have b: "gs_pendingAttack (endPlayerTurn gs) = None" "gs_turn (endPlayerTurn gs) = TurnComputer"
    by (simp_all add: endPlayerTurn_def Let_def)
  have c: "gs_units (cleanupComputerTurn gs) =
     map (\<lambda>u. if u_player u = Computer
               then u\<lparr>u_movesLeft := u_maxMoves u, u_attacksLeft := 1, u_hasRotated := False\<rparr>
               else u) (gs_units gs)"
    by (simp add: cleanupComputerTurn_def resetBudget_def Let_def)
  have d: "gs_pendingAttack (cleanupComputerTurn gs) = gs_pendingAttack gs"
    by (simp add: cleanupComputerTurn_def Let_def)
  have alive: "list_ex (\<lambda>u. u_player u = p)
                 (map (\<lambda>u. if u_player u = Computer then resetBudget u else u) us)
               \<longleftrightarrow> (\<exists>u\<in>set us. u_player u = p)" for p us
    by (induction us) (auto simp: resetBudget_def)
  have e: "gs_turn (cleanupComputerTurn gs) =
       (if (\<exists>u\<in>set (gs_units gs). u_player u = PlayerSide)
         \<and> (\<exists>u\<in>set (gs_units gs). u_player u = Computer) then TurnPlayer else GameOver)"
    by (simp add: cleanupComputerTurn_def Let_def alive)
  show ?thesis using a b c d e by blast
qed

theorem endTurn_resets_ending_side_witness:
  "map u_movesLeft (gs_units (cleanupComputerTurn
      (exampleState [exampleUnit ''p'' INFANTRY PlayerSide 4 6 NORTH 0 0,
                     exampleUnit ''c'' CAVALRY Computer 4 2 SOUTH 0 0]))) = [0, 2]
   \<and> gs_turn (cleanupComputerTurn
      (exampleState [exampleUnit ''p'' INFANTRY PlayerSide 4 6 NORTH 0 0,
                     exampleUnit ''c'' CAVALRY Computer 4 2 SOUTH 0 0])) = TurnPlayer"
  using endTurn_resets_ending_side
          [of "exampleState [exampleUnit ''p'' INFANTRY PlayerSide 4 6 NORTH 0 0,
                             exampleUnit ''c'' CAVALRY Computer 4 2 SOUTH 0 0]"]
  by (simp add: exampleState_def exampleUnit_def maxMovesFor_def)

section \<open>Properties of the computer's turn\<close>

text \<open>
  Claim C1, as stated, fails: the plan is applied without consulting isValidMove, canRotate
  or canAttack. A four-tile move that isValidMove rejects, a rotation of a unit that
  canRotate rejects and an attack that canAttack rejects all change the state.
\<close>

theorem applyPlan_counterexample:
  "\<not> isValidMove (exampleUnit ''c'' INFANTRY Computer 4 2 SOUTH 1 1) 4 6
        [exampleUnit ''c'' INFANTRY Computer 4 2 SOUTH 1 1]
   \<and> gs_units (applyPlan (exampleState [exampleUnit ''c'' INFANTRY Computer 4 2 SOUTH 1 1])
        [\<lparr>a_unitId = ''c'', a_actionType = Move, a_target = Some (4, 6), a_direction = None\<rparr>,
         \<lparr>a_unitId = ''global'', a_actionType = EndTurn, a_target = None, a_direction = None\<rparr>])
     = [exampleUnit ''c'' INFANTRY Computer 4 6 SOUTH 0 1]
   \<and> exampleUnit ''c'' INFANTRY Computer 4 6 SOUTH 0 1
       \<noteq> exampleUnit ''c'' INFANTRY Computer 4 2 SOUTH 1 1
   \<and> \<not> canRotate (exampleUnit ''c'' INFANTRY Computer 4 2 SOUTH 0 1)
   \<and> gs_units (applyPlan (exampleState [exampleUnit ''c'' INFANTRY Computer 4 2 SOUTH 0 1])
        [\<lparr>a_unitId = ''c'', a_actionType = Rotate, a_target = None, a_direction = Some WEST\<rparr>,
         \<lparr>a_unitId = ''global'', a_actionType = EndTurn, a_target = None, a_direction = None\<rparr>])
     = [exampleUnit ''c'' INFANTRY Computer 4 2 WEST 0 1]
   \<and> \<not> canAttack (exampleUnit ''c'' INFANTRY Computer 4 2 NORTH 1 0)
                  (exampleUnit ''p'' ARCHER PlayerSide 4 6 NORTH 1 1)
                  [exampleUnit ''c'' INFANTRY Computer 4 2 NORTH 1 0,
                   exampleUnit ''p'' ARCHER PlayerSide 4 6 NORTH 1 1]
   \<and> gs_units (applyPlan (exampleState [exampleUnit ''c'' INFANTRY Computer 4 2 NORTH 1 0,
                                        exampleUnit ''p'' ARCHER PlayerSide 4 6 NORTH 1 1])
        [\<lparr>a_unitId = ''c'', a_actionType = Attack, a_target = Some (4, 6), a_direction = None\<rparr>,
         \<lparr>a_unitId = ''global'', a_actionType = EndTurn, a_target = None, a_direction = None\<rparr>])
     = [exampleUnit ''c'' INFANTRY Computer 4 2 NORTH 1 0]"
proof -
  have m: "\<not> isValidMove (exampleUnit ''c'' INFANTRY Computer 4 2 SOUTH 1 1) 4 6
        [exampleUnit ''c'' INFANTRY Computer 4 2 SOUTH 1 1]"
    by (simp add: isValidMove_def exampleUnit_def getUnitAt_def GRID_SIZE_def)
  have m2: "gs_units (applyPlan (exampleState [exampleUnit ''c'' INFANTRY Computer 4 2 SOUTH 1 1])
        [\<lparr>a_unitId = ''c'', a_actionType = Move, a_target = Some (4, 6), a_direction = None\<rparr>,
         \<lparr>a_unitId = ''global'', a_actionType = EndTurn, a_target = None, a_direction = None\<rparr>])
     = [exampleUnit ''c'' INFANTRY Computer 4 6 SOUTH 0 1]"
    by (simp add: applyAIAction_def applyMoveAction_def findUnit_def getUnitAt_def
          exampleState_def exampleUnit_def autoRotation_def)
  have m3: "exampleUnit ''c'' INFANTRY Computer 4 6 SOUTH 0 1
       \<noteq> exampleUnit ''c'' INFANTRY Computer 4 2 SOUTH 1 1"
    by (simp add: exampleUnit_def)
  have r: "\<not> canRotate (exampleUnit ''c'' INFANTRY Computer 4 2 SOUTH 0 1)"
    by (simp add: canRotate_def exampleUnit_def)
  have r2: "gs_units (applyPlan (exampleState [exampleUnit ''c'' INFANTRY Computer 4 2 SOUTH 0 1])
        [\<lparr>a_unitId = ''c'', a_actionType = Rotate, a_target = None, a_direction = Some WEST\<rparr>,
         \<lparr>a_unitId = ''global'', a_actionType = EndTurn, a_target = None, a_direction = None\<rparr>])
     = [exampleUnit ''c'' INFANTRY Computer 4 2 WEST 0 1]"
    by (simp add: applyAIAction_def applyRotateAction_def findUnit_def
          exampleState_def exampleUnit_def)
  have t: "\<not> canAttack (exampleUnit ''c'' INFANTRY Computer 4 2 NORTH 1 0)
                  (exampleUnit ''p'' ARCHER PlayerSide 4 6 NORTH 1 1)
                  [exampleUnit ''c'' INFANTRY Computer 4 2 NORTH 1 0,
                   exampleUnit ''p'' ARCHER PlayerSide 4 6 NORTH 1 1]"
    by (simp add: canAttack_def exampleUnit_def)
  have w: "cr_winner (resolveCombat [exampleUnit ''c'' INFANTRY Computer 4 2 NORTH 1 0]
                  (exampleUnit ''p'' ARCHER PlayerSide 4 6 NORTH 1 1) [] []) = AttackerWins"
    by (simp add: resolveCombat_winner exampleUnit_def)
  have f: "findUnit [exampleUnit ''c'' INFANTRY Computer 4 2 NORTH 1 0,
                     exampleUnit ''p'' ARCHER PlayerSide 4 6 NORTH 1 1] ''c''
             = Some (exampleUnit ''c'' INFANTRY Computer 4 2 NORTH 1 0)"
    by (simp add: findUnit_def exampleUnit_def)
  have g: "getUnitAt [exampleUnit ''c'' INFANTRY Computer 4 2 NORTH 1 0,
                      exampleUnit ''p'' ARCHER PlayerSide 4 6 NORTH 1 1] 4 6
             = Some (exampleUnit ''p'' ARCHER PlayerSide 4 6 NORTH 1 1)"
    by (simp add: getUnitAt_def exampleUnit_def)
  have i: "u_id (exampleUnit ''c'' INFANTRY Computer 4 2 NORTH 1 0) = ''c''"
          "u_id (exampleUnit ''p'' ARCHER PlayerSide 4 6 NORTH 1 1) = ''p''"
    by (simp_all add: exampleUnit_def)
  have z: "(exampleUnit ''c'' INFANTRY Computer 4 2 NORTH 1 0)\<lparr>u_attacksLeft := 0\<rparr>
             = exampleUnit ''c'' INFANTRY Computer 4 2 NORTH 1 0"
    by (simp add: exampleUnit_def)
  have t2: "gs_units (applyPlan (exampleState [exampleUnit ''c'' INFANTRY Computer 4 2 NORTH 1 0,
                                        exampleUnit ''p'' ARCHER PlayerSide 4 6 NORTH 1 1])
        [\<lparr>a_unitId = ''c'', a_actionType = Attack, a_target = Some (4, 6), a_direction = None\<rparr>,
         \<lparr>a_unitId = ''global'', a_actionType = EndTurn, a_target = None, a_direction = None\<rparr>])
     = [exampleUnit ''c'' INFANTRY Computer 4 2 NORTH 1 0]"
    by (simp add: applyAIAction_def applyAttackAction_def resolveComputerAttack_def
          exampleState_def Let_def f g w i z)
  show ?thesis using m m2 m3 r r2 t t2 by blast
qed

lemma computerAttack_applied:
  assumes "a_actionType a = Attack" and "a_target a = Some (tx, ty)"
    and "findUnit (gs_units gs) (a_unitId a) = Some u"
    and "getUnitAt (gs_units gs) tx ty = Some d"
  shows "applyAIAction gs a =
     gs\<lparr>gs_units :=
          (let w = cr_winner (resolveCombat [u] d (gs_computerSupport gs) (gs_playerSupport gs));
               removed =
                 (if w = AttackerWins then filter (\<lambda>v. u_id v \<noteq> u_id d) (gs_units gs)
                  else if w = DefenderWins then filter (\<lambda>v. u_id v \<noteq> u_id u) (gs_units gs)
                  else gs_units gs)
           in if (\<exists>v\<in>set removed. u_id v = u_id u)
              then map (\<lambda>v. if u_id v = u_id u then v\<lparr>u_attacksLeft := 0\<rparr> else v) removed
              else removed),
        gs_combatState := None,
        gs_logs := gs_logs gs @ [cr_log (resolveCombat [u] d (gs_computerSupport gs)
                                           (gs_playerSupport gs))]\<rparr>"
  using assms
  by (simp add: applyAIAction_def applyAttackAction_def resolveComputerAttack_def Let_def
        list_ex_iff split del: if_split cong: if_cong)

lemma spent_ids:
  "map u_id (if (\<exists>v\<in>set (xs :: Unit list). u_id v = i)
             then map (\<lambda>v. if u_id v = i then v\<lparr>u_attacksLeft := 0\<rparr> else v) xs else xs)
   = map u_id xs"
  by (induction xs) auto

lemma spent_attacks:
  "\<forall>v\<in>set (if (\<exists>w\<in>set (xs :: Unit list). u_id w = i)
             then map (\<lambda>v. if u_id v = i then v\<lparr>u_attacksLeft := 0\<rparr> else v) xs else xs).
      u_id v = i \<longrightarrow> u_attacksLeft v = 0"
proof -
  define f :: "Unit \<Rightarrow> Unit" where
    "f = (\<lambda>v. if u_id v = i then v\<lparr>u_attacksLeft := 0\<rparr> else v)"
  have p: "u_id (f w) = i \<longrightarrow> u_attacksLeft (f w) = 0" for w
    by (simp add: f_def)
  have m: "\<forall>v\<in>set (map f xs). u_id v = i \<longrightarrow> u_attacksLeft v = 0"
  proof
    fix v assume "v \<in> set (map f xs)"
    then obtain w where "v = f w" by (metis imageE list.set_map)
    then show "u_id v = i \<longrightarrow> u_attacksLeft v = 0" using p [of w] by (simp only:)
  qed
  show ?thesis
  proof (cases "\<exists>w\<in>set xs. u_id w = i")
    case True
    then show ?thesis using m unfolding f_def by (simp only: if_True)
  next
    case False
    then have "\<forall>v\<in>set xs. u_id v = i \<longrightarrow> u_attacksLeft v = 0" by blast
    with False show ?thesis by (simp only: if_False)
  qed
qed

lemma filter_ids:
  "map u_id (filter (\<lambda>v. u_id v \<noteq> i) (xs :: Unit list)) = filter (\<lambda>j. j \<noteq> i) (map u_id xs)"
  by (induction xs) simp_all

lemma computerAttack_ids:
  assumes "a_actionType a = Attack" and "a_target a = Some (tx, ty)"
    and "findUnit (gs_units gs) (a_unitId a) = Some u"
    and "getUnitAt (gs_units gs) tx ty = Some d"
  shows "map u_id (gs_units (applyAIAction gs a)) =
     (case cr_winner (resolveCombat [u] d (gs_computerSupport gs) (gs_playerSupport gs)) of
        AttackerWins \<Rightarrow> filter (\<lambda>i. i \<noteq> u_id d) (map u_id (gs_units gs))
      | DefenderWins \<Rightarrow> filter (\<lambda>i. i \<noteq> u_id u) (map u_id (gs_units gs))
      | Tie \<Rightarrow> map u_id (gs_units gs))
   \<and> (\<forall>v\<in>set (gs_units (applyAIAction gs a)). u_id v = u_id u \<longrightarrow> u_attacksLeft v = 0)"
proof -
  define removed where "removed =
     (if cr_winner (resolveCombat [u] d (gs_computerSupport gs) (gs_playerSupport gs)) = AttackerWins
        then filter (\<lambda>v. u_id v \<noteq> u_id d) (gs_units gs)
      else if cr_winner (resolveCombat [u] d (gs_computerSupport gs) (gs_playerSupport gs))
              = DefenderWins
        then filter (\<lambda>v. u_id v \<noteq> u_id u) (gs_units gs)
      else gs_units gs)"
  have e: "gs_units (applyAIAction gs a) =
      (if (\<exists>v\<in>set removed. u_id v = u_id u)
       then map (\<lambda>v. if u_id v = u_id u then v\<lparr>u_attacksLeft := 0\<rparr> else v) removed
       else removed)"
    by (simp add: computerAttack_applied [OF assms] removed_def Let_def
          split del: if_split cong: if_cong)
  have r: "map u_id removed =
     (case cr_winner (resolveCombat [u] d (gs_computerSupport gs) (gs_playerSupport gs)) of
        AttackerWins \<Rightarrow> filter (\<lambda>i. i \<noteq> u_id d) (map u_id (gs_units gs))
      | DefenderWins \<Rightarrow> filter (\<lambda>i. i \<noteq> u_id u) (map u_id (gs_units gs))
      | Tie \<Rightarrow> map u_id (gs_units gs))"
    unfolding removed_def
    by (cases "cr_winner (resolveCombat [u] d (gs_computerSupport gs) (gs_playerSupport gs))")
       (simp_all add: filter_ids)
  show ?thesis
    unfolding e using spent_ids [of removed "u_id u"] spent_attacks [of removed "u_id u"] r
    by (simp only: simp_thms)
qed

text \<open>
  Claim C1, amended. For every entry of the plan before the first end_turn entry, the
  only checks are that a unit with the action's id exists and, for a move, that no unit
  stands on the target tile, and, for an attack, that some unit stands on the target tile.
  An action that fails these checks, or that lacks its target or direction, is dropped:
  the state is unchanged and the next action is processed. An action that passes them is
  applied: a move puts the unit on the target tile, a rotation sets its facing, and an
  attack resolves the combat of that unit alone against the unit on the target tile,
  removes the defender when the attacker wins and the attacker when the defender wins,
  and leaves a surviving attacker with no attack.
\<close>

theorem applyPlan_checks_presence_only:
  "(a_actionType a = Move \<and> a_target a = Some (tx, ty) \<longrightarrow>
      (findUnit (gs_units gs) (a_unitId a) = None \<or> getUnitAt (gs_units gs) tx ty \<noteq> None
         \<longrightarrow> applyAIAction gs a = gs) \<and>
      (findUnit (gs_units gs) (a_unitId a) = Some u \<and> getUnitAt (gs_units gs) tx ty = None
         \<longrightarrow> applyAIAction gs a =
               gs\<lparr>gs_units :=
                 map (\<lambda>v. if u_id v = u_id u then
                            v\<lparr>u_x := tx, u_y := ty, u_rotation := autoRotation u tx ty,
                              u_movesLeft :=
                                max 0 (u_movesLeft v - (\<bar>u_x u - tx\<bar> + \<bar>u_y u - ty\<bar>))\<rparr>
                          else v)
                     (gs_units gs)\<rparr>))
   \<and> (a_actionType a = Rotate \<and> a_direction a = Some dir \<longrightarrow>
      (findUnit (gs_units gs) (a_unitId a) = None \<longrightarrow> applyAIAction gs a = gs) \<and>
      (findUnit (gs_units gs) (a_unitId a) = Some u
         \<longrightarrow> applyAIAction gs a =
               gs\<lparr>gs_units :=
                 map (\<lambda>v. if u_id v = u_id u then v\<lparr>u_rotation := dir\<rparr> else v)
                     (gs_units gs)\<rparr>))
   \<and> (a_actionType a = Attack \<and> a_target a = Some (tx, ty) \<longrightarrow>
      (findUnit (gs_units gs) (a_unitId a) = None \<or> getUnitAt (gs_units gs) tx ty = None
         \<longrightarrow> applyAIAction gs a = gs) \<and>
      (findUnit (gs_units gs) (a_unitId a) = Some u \<and> getUnitAt (gs_units gs) tx ty = Some d
         \<longrightarrow> applyAIAction gs a =
               gs\<lparr>gs_units :=
                    (let w = cr_winner (resolveCombat [u] d (gs_computerSupport gs)
                                          (gs_playerSupport gs));
                         removed =
                           (if w = AttackerWins
                              then filter (\<lambda>v. u_id v \<noteq> u_id d) (gs_units gs)
                            else if w = DefenderWins
                              then filter (\<lambda>v. u_id v \<noteq> u_id u) (gs_units gs)
                            else gs_units gs)
                     in if (\<exists>v\<in>set removed. u_id v = u_id u)
                        then map (\<lambda>v. if u_id v = u_id u then v\<lparr>u_attacksLeft := 0\<rparr> else v)
                               removed
                        else removed),
                  gs_combatState := None,
                  gs_logs := gs_logs gs @ [cr_log (resolveCombat [u] d (gs_computerSupport gs)
                                                     (gs_playerSupport gs))]\<rparr>
             \<and> map u_id (gs_units (applyAIAction gs a)) =
                 (case cr_winner (resolveCombat [u] d (gs_computerSupport gs)
                                    (gs_playerSupport gs)) of
                    AttackerWins \<Rightarrow> filter (\<lambda>i. i \<noteq> u_id d) (map u_id (gs_units gs))
                  | DefenderWins \<Rightarrow> filter (\<lambda>i. i \<noteq> u_id u) (map u_id (gs_units gs))
                  | Tie \<Rightarrow> map u_id (gs_units gs))
             \<and> (\<forall>v\<in>set (gs_units (applyAIAction gs a)).
                   u_id v = u_id u \<longrightarrow> u_attacksLeft v = 0)))
   \<and> ((a_actionType a = Move \<or> a_actionType a = Attack) \<and> a_target a = None
         \<longrightarrow> applyAIAction gs a = gs)
   \<and> (a_actionType a = Rotate \<and> a_direction a = None \<longrightarrow> applyAIAction gs a = gs)
   \<and> (a_actionType a \<noteq> EndTurn
         \<longrightarrow> applyPlan gs (a # rest) = applyPlan (applyAIAction gs a) rest)
   \<and> (a_actionType a = EndTurn \<longrightarrow> applyPlan gs (a # rest) = gs)"
proof -
  have mv: "a_actionType a = Move \<and> a_target a = Some (tx, ty) \<longrightarrow>
      (findUnit (gs_units gs) (a_unitId a) = None \<or> getUnitAt (gs_units gs) tx ty \<noteq> None
         \<longrightarrow> applyAIAction gs a = gs) \<and>
      (findUnit (gs_units gs) (a_unitId a) = Some u \<and> getUnitAt (gs_units gs) tx ty = None
         \<longrightarrow> applyAIAction gs a =
               gs\<lparr>gs_units :=
                 map (\<lambda>v. if u_id v = u_id u then
                            v\<lparr>u_x := tx, u_y := ty, u_rotation := autoRotation u tx ty,
                              u_movesLeft :=
                                max 0 (u_movesLeft v - (\<bar>u_x u - tx\<bar> + \<bar>u_y u - ty\<bar>))\<rparr>
                          else v)
                     (gs_units gs)\<rparr>)"
    by (auto simp add: applyAIAction_def applyMoveAction_def Let_def split: option.splits)
  have rt: "a_actionType a = Rotate \<and> a_direction a = Some dir \<longrightarrow>
      (findUnit (gs_units gs) (a_unitId a) = None \<longrightarrow> applyAIAction gs a = gs) \<and>
      (findUnit (gs_units gs) (a_unitId a) = Some u
         \<longrightarrow> applyAIAction gs a =
               gs\<lparr>gs_units :=
                 map (\<lambda>v. if u_id v = u_id u then v\<lparr>u_rotation := dir\<rparr> else v)
                     (gs_units gs)\<rparr>)"
    by (simp add: applyAIAction_def applyRotateAction_def)
  have at: "a_actionType a = Attack \<and> a_target a = Some (tx, ty) \<longrightarrow>
      (findUnit (gs_units gs) (a_unitId a) = None \<or> getUnitAt (gs_units gs) tx ty = None
         \<longrightarrow> applyAIAction gs a = gs) \<and>
      (findUnit (gs_units gs) (a_unitId a) = Some u \<and> getUnitAt (gs_units gs) tx ty = Some d
         \<longrightarrow> applyAIAction gs a =
               gs\<lparr>gs_units :=
                    (let w = cr_winner (resolveCombat [u] d (gs_computerSupport gs)
                                          (gs_playerSupport gs));
                         removed =
                           (if w = AttackerWins
                              then filter (\<lambda>v. u_id v \<noteq> u_id d) (gs_units gs)
                            else if w = DefenderWins
                              then filter (\<lambda>v. u_id v \<noteq> u_id u) (gs_units gs)
                            else gs_units gs)
                     in if (\<exists>v\<in>set removed. u_id v = u_id u)
                        then map (\<lambda>v. if u_id v = u_id u then v\<lparr>u_attacksLeft := 0\<rparr> else v)
                               removed
                        else removed),
                  gs_combatState := None,
                  gs_logs := gs_logs gs @ [cr_log (resolveCombat [u] d (gs_computerSupport gs)
                                                     (gs_playerSupport gs))]\<rparr>
             \<and> map u_id (gs_units (applyAIAction gs a)) =
                 (case cr_winner (resolveCombat [u] d (gs_computerSupport gs)
                                    (gs_playerSupport gs)) of
                    AttackerWins \<Rightarrow> filter (\<lambda>i. i \<noteq> u_id d) (map u_id (gs_units gs))
                  | DefenderWins \<Rightarrow> filter (\<lambda>i. i \<noteq> u_id u) (map u_id (gs_units gs))
                  | Tie \<Rightarrow> map u_id (gs_units gs))
             \<and> (\<forall>v\<in>set (gs_units (applyAIAction gs a)).
                   u_id v = u_id u \<longrightarrow> u_attacksLeft v = 0))"
  proof -
    have none: "findUnit (gs_units gs) (a_unitId a) = None \<or> getUnitAt (gs_units gs) tx ty = None
         \<longrightarrow> applyAttackAction gs a (tx, ty) = gs"
      by (auto simp add: applyAttackAction_def split: option.splits)
    have dropped: "a_actionType a = Attack \<and> a_target a = Some (tx, ty) \<longrightarrow>
        (findUnit (gs_units gs) (a_unitId a) = None \<or> getUnitAt (gs_units gs) tx ty = None
           \<longrightarrow> applyAIAction gs a = gs)"
      using none by (simp add: applyAIAction_def)
    show ?thesis
      using dropped computerAttack_applied [of a tx ty gs u d]
            computerAttack_ids [of a tx ty gs u d]
      by blast
  qed
  have nt: "(a_actionType a = Move \<or> a_actionType a = Attack) \<and> a_target a = None
         \<longrightarrow> applyAIAction gs a = gs"
    by (auto simp add: applyAIAction_def)
  have nd: "a_actionType a = Rotate \<and> a_direction a = None \<longrightarrow> applyAIAction gs a = gs"
    by (simp add: applyAIAction_def)
  have pl: "a_actionType a \<noteq> EndTurn
         \<longrightarrow> applyPlan gs (a # rest) = applyPlan (applyAIAction gs a) rest"
       "a_actionType a = EndTurn \<longrightarrow> applyPlan gs (a # rest) = gs"
    by simp_all
  show ?thesis
    using mv rt at nt nd pl by blast
qed

theorem applyPlan_checks_presence_only_witness:
  "applyAIAction (exampleState [exampleUnit ''c'' INFANTRY Computer 4 2 SOUTH 1 1])
      \<lparr>a_unitId = ''x'', a_actionType = Move, a_target = Some (4, 3), a_direction = None\<rparr>
     = exampleState [exampleUnit ''c'' INFANTRY Computer 4 2 SOUTH 1 1]
   \<and> applyPlan (exampleState [exampleUnit ''c'' INFANTRY Computer 4 2 SOUTH 1 1])
       [\<lparr>a_unitId = ''x'', a_actionType = Move, a_target = Some (4, 3), a_direction = None\<rparr>,
        \<lparr>a_unitId = ''c'', a_actionType = Rotate, a_target = None, a_direction = Some EAST\<rparr>]
     = exampleState [exampleUnit ''c'' INFANTRY Computer 4 2 EAST 1 1]"
proof -
  let ?c = "exampleUnit ''c'' INFANTRY Computer 4 2 SOUTH 1 1"
  let ?gs = "exampleState [?c]"
  let ?a = "\<lparr>a_unitId = ''x'', a_actionType = Move, a_target = Some (4, 3), a_direction = None\<rparr>"
  let ?b = "\<lparr>a_unitId = ''c'', a_actionType = Rotate, a_target = None, a_direction = Some EAST\<rparr>"
  have h1: "a_actionType ?a = Move \<and> a_target ?a = Some (4, 3)" by simp
  have h2: "findUnit (gs_units ?gs) (a_unitId ?a) = None"
    by (simp add: findUnit_def exampleState_def exampleUnit_def)
  have h3: "a_actionType ?a \<noteq> EndTurn" "a_actionType ?b \<noteq> EndTurn" by simp_all
  have h4: "a_actionType ?b = Rotate \<and> a_direction ?b = Some EAST" by simp
  have h5: "findUnit (gs_units ?gs) (a_unitId ?b) = Some ?c"
    by (simp add: findUnit_def exampleState_def exampleUnit_def)
  have d1: "applyAIAction ?gs ?a = ?gs"
    using applyPlan_checks_presence_only [where a = ?a and gs = ?gs and tx = 4 and ty = 3] h1 h2
    by blast
  have d2: "applyPlan ?gs [?a, ?b] = applyPlan (applyAIAction ?gs ?a) [?b]"
    using applyPlan_checks_presence_only [where a = ?a and gs = ?gs and rest = "[?b]"] h3
    by blast
  have d3: "applyPlan ?gs [?b] = applyPlan (applyAIAction ?gs ?b) []"
    using applyPlan_checks_presence_only [where a = ?b and gs = ?gs and rest = "[]"] h3
    by blast
  have d4: "applyAIAction ?gs ?b =
      ?gs\<lparr>gs_units := map (\<lambda>v. if u_id v = u_id ?c then v\<lparr>u_rotation := EAST\<rparr> else v) (gs_units ?gs)\<rparr>"
    using applyPlan_checks_presence_only [where a = ?b and gs = ?gs and dir = EAST and u = ?c] h4 h5
    by blast
  have d5: "?gs\<lparr>gs_units := map (\<lambda>v. if u_id v = u_id ?c then v\<lparr>u_rotation := EAST\<rparr> else v) (gs_units ?gs)\<rparr>
      = exampleState [exampleUnit ''c'' INFANTRY Computer 4 2 EAST 1 1]"
    by (simp add: exampleState_def exampleUnit_def)
  show ?thesis
    unfolding d2 d1 d3 d4 d5 by simp
qed

section \<open>Properties of the end of the game\<close>

lemma checkWinCondition_result:
  "gs_turn (checkWinCondition g) =
     (if filter (\<lambda>u. u_player u = PlayerSide) (gs_units g) = [] then GameOver
      else if filter (\<lambda>u. u_player u = Computer) (gs_units g) = [] then GameOver
      else gs_turn g)"
  "gs_winner (checkWinCondition g) =
     (if filter (\<lambda>u. u_player u = PlayerSide) (gs_units g) = [] then Some Computer
      else if filter (\<lambda>u. u_player u = Computer) (gs_units g) = [] then Some PlayerSide
      else gs_winner g)"
  "gs_pendingAttack (checkWinCondition g) = gs_pendingAttack g"
  by (simp_all add: checkWinCondition_def Let_def)

lemma resolveMultiAttack_pending:
  "gs_pendingAttack (resolveMultiAttack g as d) = gs_pendingAttack g"
  by (simp add: resolveMultiAttack_def Let_def split: option.splits)

lemma executeMultiAttack_pending:
  "gs_pendingAttack (executeMultiAttack g as d) = None"
  by (simp add: executeMultiAttack_def Let_def checkWinCondition_result resolveMultiAttack_pending)

lemma executeMultiAttack_gameOver:
  "(filter (\<lambda>u. u_player u = PlayerSide) (gs_units (executeMultiAttack g as d)) = [] \<longrightarrow>
      gs_turn (executeMultiAttack g as d) = GameOver \<and>
      gs_winner (executeMultiAttack g as d) = Some Computer)
   \<and> (filter (\<lambda>u. u_player u = Computer) (gs_units (executeMultiAttack g as d)) = [] \<and>
      filter (\<lambda>u. u_player u = PlayerSide) (gs_units (executeMultiAttack g as d)) \<noteq> [] \<longrightarrow>
      gs_turn (executeMultiAttack g as d) = GameOver \<and>
      gs_winner (executeMultiAttack g as d) = Some PlayerSide)"
  by (simp add: executeMultiAttack_def Let_def checkWinCondition_result checkWinCondition_units)

lemma applyAIAction_pending:
  "gs_pendingAttack (applyAIAction g a) = gs_pendingAttack g"
  by (simp add: applyAIAction_def applyMoveAction_def applyRotateAction_def
        applyAttackAction_def resolveComputerAttack_def Let_def
      split: ActionType.splits option.splits)

lemma applyPlan_pending:
  "gs_pendingAttack (applyPlan g plan) = gs_pendingAttack g"
  by (induction plan arbitrary: g) (simp_all add: applyAIAction_pending)

lemma cleanup_alive:
  "list_ex (\<lambda>u. u_player u = p)
     (map (\<lambda>u. if u_player u = Computer then resetBudget u else u) us)
   \<longleftrightarrow> filter (\<lambda>u. u_player u = p) us \<noteq> []"
  by (induction us) (auto simp: resetBudget_def)

lemma cleanup_filter:
  "filter (\<lambda>u. u_player u = p)
     (map (\<lambda>u. if u_player u = Computer then resetBudget u else u) us) = []
   \<longleftrightarrow> filter (\<lambda>u. u_player u = p) us = []"
  by (induction us) (auto simp: resetBudget_def)

lemma cleanupComputerTurn_result:
  "gs_units (cleanupComputerTurn g) =
     map (\<lambda>u. if u_player u = Computer then resetBudget u else u) (gs_units g)"
  "gs_turn (cleanupComputerTurn g) =
     (if filter (\<lambda>u. u_player u = Computer) (gs_units g) = [] then GameOver
      else if filter (\<lambda>u. u_player u = PlayerSide) (gs_units g) = [] then GameOver
      else TurnPlayer)"
  "gs_winner (cleanupComputerTurn g) =
     (if filter (\<lambda>u. u_player u = Computer) (gs_units g) = [] then Some PlayerSide
      else if filter (\<lambda>u. u_player u = PlayerSide) (gs_units g) = [] then Some Computer
      else None)"
  "gs_pendingAttack (cleanupComputerTurn g) = gs_pendingAttack g"
  by (simp_all add: cleanupComputerTurn_def Let_def cleanup_alive)

lemma runComputerTurn_gameOver:
  assumes "app_aiPlan app = Some plan"
  shows "(filter (\<lambda>u. u_player u = Computer) (gs_units (app_gameState (runComputerTurn app))) = [] \<longrightarrow>
      gs_turn (app_gameState (runComputerTurn app)) = GameOver \<and>
      gs_winner (app_gameState (runComputerTurn app)) = Some PlayerSide)
   \<and> (filter (\<lambda>u. u_player u = PlayerSide) (gs_units (app_gameState (runComputerTurn app))) = [] \<and>
      filter (\<lambda>u. u_player u = Computer) (gs_units (app_gameState (runComputerTurn app))) \<noteq> [] \<longrightarrow>
      gs_turn (app_gameState (runComputerTurn app)) = GameOver \<and>
      gs_winner (app_gameState (runComputerTurn app)) = Some Computer)
   \<and> gs_pendingAttack (app_gameState (runComputerTurn app)) = gs_pendingAttack (app_gameState app)"
  by (simp add: runComputerTurn_def assms cleanupComputerTurn_result cleanup_filter applyPlan_pending)

lemma handleTileClick_terminal:
  "gs_winner (app_gameState app) \<noteq> None \<Longrightarrow> handleTileClick app x y newId = app"
  by (simp add: handleTileClick_def)

lemma confirmPendingAttack_idle:
  "gs_pendingAttack g = None \<Longrightarrow> confirmPendingAttack g = g"
  by (simp add: confirmPendingAttack_def)

lemma applyAIAction_phase:
  "gs_turn (applyAIAction g a) = gs_turn g \<and> gs_winner (applyAIAction g a) = gs_winner g"
  by (simp add: applyAIAction_def applyMoveAction_def applyRotateAction_def
        applyAttackAction_def resolveComputerAttack_def Let_def
      split: ActionType.splits option.splits)

lemma applyPlan_phase:
  "gs_turn (applyPlan g plan) = gs_turn g \<and> gs_winner (applyPlan g plan) = gs_winner g"
  by (induction plan arbitrary: g) (simp_all add: applyAIAction_phase)

text \<open>
  Claim C10, as stated, fails on the computer's turn: the plan loop makes no win test.
  After a legal attack of the plan has removed the player's last unit the phase is still
  the computer's turn and no winner is set, and the next move of the plan, legal by
  isValidMove, is applied.
\<close>

theorem midPlan_counterexample:
  "canAttack (exampleUnit ''c'' INFANTRY Computer 4 3 SOUTH 1 1)
             (exampleUnit ''p'' ARCHER PlayerSide 4 4 NORTH 1 1)
             [exampleUnit ''c'' INFANTRY Computer 4 3 SOUTH 1 1,
              exampleUnit ''p'' ARCHER PlayerSide 4 4 NORTH 1 1]
   \<and> gs_units (applyAIAction
        ((exampleState [exampleUnit ''c'' INFANTRY Computer 4 3 SOUTH 1 1,
                        exampleUnit ''p'' ARCHER PlayerSide 4 4 NORTH 1 1])\<lparr>gs_turn := TurnComputer\<rparr>)
        \<lparr>a_unitId = ''c'', a_actionType = Attack, a_target = Some (4, 4), a_direction = None\<rparr>)
     = [exampleUnit ''c'' INFANTRY Computer 4 3 SOUTH 1 0]
   \<and> gs_turn (applyAIAction
        ((exampleState [exampleUnit ''c'' INFANTRY Computer 4 3 SOUTH 1 1,
                        exampleUnit ''p'' ARCHER PlayerSide 4 4 NORTH 1 1])\<lparr>gs_turn := TurnComputer\<rparr>)
        \<lparr>a_unitId = ''c'', a_actionType = Attack, a_target = Some (4, 4), a_direction = None\<rparr>)
     = TurnComputer
   \<and> gs_winner (applyAIAction
        ((exampleState [exampleUnit ''c'' INFANTRY Computer 4 3 SOUTH 1 1,
                        exampleUnit ''p'' ARCHER PlayerSide 4 4 NORTH 1 1])\<lparr>gs_turn := TurnComputer\<rparr>)
        \<lparr>a_unitId = ''c'', a_actionType = Attack, a_target = Some (4, 4), a_direction = None\<rparr>)
     = None
   \<and> isValidMove (exampleUnit ''c'' INFANTRY Computer 4 3 SOUTH 1 0) 4 4
        [exampleUnit ''c'' INFANTRY Computer 4 3 SOUTH 1 0]
   \<and> gs_units (applyPlan
        ((exampleState [exampleUnit ''c'' INFANTRY Computer 4 3 SOUTH 1 1,
                        exampleUnit ''p'' ARCHER PlayerSide 4 4 NORTH 1 1])\<lparr>gs_turn := TurnComputer\<rparr>)
        [\<lparr>a_unitId = ''c'', a_actionType = Attack, a_target = Some (4, 4), a_direction = None\<rparr>,
         \<lparr>a_unitId = ''c'', a_actionType = Move, a_target = Some (4, 4), a_direction = None\<rparr>])
     = [exampleUnit ''c'' INFANTRY Computer 4 4 SOUTH 0 0]
   \<and> exampleUnit ''c'' INFANTRY Computer 4 4 SOUTH 0 0
       \<noteq> exampleUnit ''c'' INFANTRY Computer 4 3 SOUTH 1 0"
proof -
  let ?c = "exampleUnit ''c'' INFANTRY Computer 4 3 SOUTH 1 1"
  let ?p = "exampleUnit ''p'' ARCHER PlayerSide 4 4 NORTH 1 1"
  let ?c1 = "exampleUnit ''c'' INFANTRY Computer 4 3 SOUTH 1 0"
  let ?c2 = "exampleUnit ''c'' INFANTRY Computer 4 4 SOUTH 0 0"
  let ?s = "(exampleState [?c, ?p])\<lparr>gs_turn := TurnComputer\<rparr>"
  let ?atk = "\<lparr>a_unitId = ''c'', a_actionType = Attack, a_target = Some (4, 4), a_direction = None\<rparr>"
  let ?mv = "\<lparr>a_unitId = ''c'', a_actionType = Move, a_target = Some (4, 4), a_direction = None\<rparr>"
  have ca: "canAttack ?c ?p [?c, ?p]"
    by (simp add: canAttack_def exampleUnit_def)
  have f: "findUnit [?c, ?p] ''c'' = Some ?c" by (simp add: findUnit_def exampleUnit_def)
  have g: "getUnitAt [?c, ?p] 4 4 = Some ?p" by (simp add: getUnitAt_def exampleUnit_def)
  have i: "u_id ?c = ''c''" "u_id ?p = ''p''" by (simp_all add: exampleUnit_def)
  have w: "cr_winner (resolveCombat [?c] ?p [] []) = AttackerWins"
    by (simp add: resolveCombat_winner exampleUnit_def)
  have z: "?c\<lparr>u_attacksLeft := 0\<rparr> = ?c1" by (simp add: exampleUnit_def)
  have u1: "gs_units (applyAIAction ?s ?atk) = [?c1]"
    by (simp add: applyAIAction_def applyAttackAction_def resolveComputerAttack_def
          exampleState_def Let_def f g w i z)
  have t1: "gs_turn (applyAIAction ?s ?atk) = TurnComputer" "gs_winner (applyAIAction ?s ?atk) = None"
    by (simp_all add: applyAIAction_phase exampleState_def)
  have vm: "isValidMove ?c1 4 4 [?c1]"
    by (simp add: isValidMove_def exampleUnit_def getUnitAt_def GRID_SIZE_def)
  have mvg: "gs_units (applyAIAction k ?mv) = [?c2]" if "gs_units k = [?c1]" for k
    by (simp add: applyAIAction_def applyMoveAction_def findUnit_def getUnitAt_def that
          exampleUnit_def autoRotation_def)
  have u2: "gs_units (applyPlan ?s [?atk, ?mv]) = [?c2]"
    using mvg [OF u1] by simp
  have ne: "?c2 \<noteq> ?c1" by (simp add: exampleUnit_def)
  show ?thesis using ca u1 t1 vm u2 ne by blast
qed

text \<open>
  Claim C10, amended. After the player's combat is resolved, a side left with no unit
  while the other side still has one puts the game into the GameOver phase with the other
  side as winner. On the computer's turn no action of the plan changes the phase or the
  winner; the same transition is made by the cleanup after the whole plan. Once a winner
  is set, a tile click, which is how a move or an attack is requested, leaves the state
  unchanged, and so does confirming an attack, since no attack is pending then.
\<close>

theorem gameOver_terminal:
  "(filter (\<lambda>u. u_player u = PlayerSide) (gs_units (executeMultiAttack g as d)) = [] \<longrightarrow>
      gs_turn (executeMultiAttack g as d) = GameOver \<and>
      gs_winner (executeMultiAttack g as d) = Some Computer)
   \<and> (filter (\<lambda>u. u_player u = Computer) (gs_units (executeMultiAttack g as d)) = [] \<and>
      filter (\<lambda>u. u_player u = PlayerSide) (gs_units (executeMultiAttack g as d)) \<noteq> [] \<longrightarrow>
      gs_turn (executeMultiAttack g as d) = GameOver \<and>
      gs_winner (executeMultiAttack g as d) = Some PlayerSide)
   \<and> gs_pendingAttack (executeMultiAttack g as d) = None
   \<and> (app_aiPlan app = Some plan \<longrightarrow>
       (filter (\<lambda>u. u_player u = Computer) (gs_units (app_gameState (runComputerTurn app))) = [] \<longrightarrow>
          gs_turn (app_gameState (runComputerTurn app)) = GameOver \<and>
          gs_winner (app_gameState (runComputerTurn app)) = Some PlayerSide)
       \<and> (filter (\<lambda>u. u_player u = PlayerSide) (gs_units (app_gameState (runComputerTurn app))) = [] \<and>
          filter (\<lambda>u. u_player u = Computer) (gs_units (app_gameState (runComputerTurn app))) \<noteq> [] \<longrightarrow>
          gs_turn (app_gameState (runComputerTurn app)) = GameOver \<and>
          gs_winner (app_gameState (runComputerTurn app)) = Some Computer)
       \<and> gs_pendingAttack (app_gameState (runComputerTurn app)) = gs_pendingAttack (app_gameState app))
   \<and> (gs_winner (app_gameState app') \<noteq> None \<longrightarrow> handleTileClick app' x y newId = app')
   \<and> (gs_winner g' \<noteq> None \<and> gs_pendingAttack g' = None \<longrightarrow> confirmPendingAttack g' = g')
   \<and> gs_turn (applyAIAction g2 a) = gs_turn g2
   \<and> gs_winner (applyAIAction g2 a) = gs_winner g2
   \<and> gs_turn (applyPlan g2 plan2) = gs_turn g2
   \<and> gs_winner (applyPlan g2 plan2) = gs_winner g2"
  using executeMultiAttack_gameOver [of g as d] executeMultiAttack_pending [of g as d]
        runComputerTurn_gameOver [of app plan] handleTileClick_terminal [of app' x y newId]
        confirmPendingAttack_idle [of g'] applyAIAction_phase [of g2 a]
        applyPlan_phase [of g2 plan2]
  by blast

theorem gameOver_terminal_witness:
  "gs_turn (executeMultiAttack
      (exampleState [exampleUnit ''a'' INFANTRY PlayerSide 4 5 NORTH 1 1,
                     exampleUnit ''d'' ARCHER Computer 4 4 SOUTH 1 1])
      [exampleUnit ''a'' INFANTRY PlayerSide 4 5 NORTH 1 1]
      (exampleUnit ''d'' ARCHER Computer 4 4 SOUTH 1 1)) = GameOver
   \<and> gs_winner (executeMultiAttack
      (exampleState [exampleUnit ''a'' INFANTRY PlayerSide 4 5 NORTH 1 1,
                     exampleUnit ''d'' ARCHER Computer 4 4 SOUTH 1 1])
      [exampleUnit ''a'' INFANTRY PlayerSide 4 5 NORTH 1 1]
      (exampleUnit ''d'' ARCHER Computer 4 4 SOUTH 1 1)) = Some PlayerSide
   \<and> handleTileClick
        \<lparr>app_gameState = executeMultiAttack
           (exampleState [exampleUnit ''a'' INFANTRY PlayerSide 4 5 NORTH 1 1,
                          exampleUnit ''d'' ARCHER Computer 4 4 SOUTH 1 1])
           [exampleUnit ''a'' INFANTRY PlayerSide 4 5 NORTH 1 1]
           (exampleUnit ''d'' ARCHER Computer 4 4 SOUTH 1 1),
         app_setupUnitsLeft = [], app_isProcessingAI = False, app_aiPlan = None\<rparr> 4 4 ''n''
      = \<lparr>app_gameState = executeMultiAttack
           (exampleState [exampleUnit ''a'' INFANTRY PlayerSide 4 5 NORTH 1 1,
                          exampleUnit ''d'' ARCHER Computer 4 4 SOUTH 1 1])
           [exampleUnit ''a'' INFANTRY PlayerSide 4 5 NORTH 1 1]
           (exampleUnit ''d'' ARCHER Computer 4 4 SOUTH 1 1),
         app_setupUnitsLeft = [], app_isProcessingAI = False, app_aiPlan = None\<rparr>"
proof -
  let ?a = "exampleUnit ''a'' INFANTRY PlayerSide 4 5 NORTH 1 1"
  let ?d = "exampleUnit ''d'' ARCHER Computer 4 4 SOUTH 1 1"
  let ?gs = "exampleState [?a, ?d]"
  let ?gs' = "executeMultiAttack ?gs [?a] ?d"
  let ?app = "\<lparr>app_gameState = ?gs', app_setupUnitsLeft = [], app_isProcessingAI = False,
               app_aiPlan = None\<rparr>"
  have f: "findUnit [?a, ?d] ''d'' = Some ?d" by (simp add: findUnit_def exampleUnit_def)
  have i: "u_id ?a = ''a''" "u_id ?d = ''d''" by (simp_all add: exampleUnit_def)
  have w: "cr_winner (resolveCombat [?a] ?d [] []) = AttackerWins"
    by (simp add: resolveCombat_winner exampleUnit_def)
  have u: "gs_units ?gs' = [?a\<lparr>u_attacksLeft := 0, u_movesLeft := max 0 (u_movesLeft ?a)\<rparr>]"
    by (simp add: executeMultiAttack_def resolveMultiAttack_def checkWinCondition_units
          exampleState_def Let_def f i w)
  have p: "u_player ?a = PlayerSide" by (simp add: exampleUnit_def)
  have c: "filter (\<lambda>u. u_player u = Computer) (gs_units ?gs') = []"
          "filter (\<lambda>u. u_player u = PlayerSide) (gs_units ?gs') \<noteq> []"
    by (simp_all add: u p)
  have t: "gs_turn ?gs' = GameOver \<and> gs_winner ?gs' = Some PlayerSide"
    using gameOver_terminal [where g = ?gs and as = "[?a]" and d = ?d] c by blast
  have n: "gs_winner (app_gameState ?app) \<noteq> None" using t by simp
  have h: "handleTileClick ?app 4 4 ''n'' = ?app"
    using gameOver_terminal [where app' = ?app and x = 4 and y = 4 and newId = "''n''"] n by blast
  show ?thesis using t h by blast
qed

section \<open>Ownership of the computer's support lines\<close>

text \<open>
  Claim C4 says that every support line stored for the computer at game start is owned by
  the computer, so that its units gain the bonus. The code stores the lines without an
  owner: for each of the four draws no line has a \<^verbatim>\<open>player\<close> field, and a computer
  Infantry deployed at (3, 1), on the computer's column-3 line of draw 0, has strength 1.
  With the owner set on the same lines its strength would be 2.
\<close>

theorem computerSupport_without_owner:
  "gs_computerSupport (initialComputerSetup initialGameState computerZone exampleIds Pick0)
     = [bareLine Col 3, bareLine Col 4, bareLine Col 5]
   \<and> map sl_player (getComputerSupportPlacement Pick0) = [None, None, None]
   \<and> map sl_player (getComputerSupportPlacement Pick1) = [None, None, None]
   \<and> map sl_player (getComputerSupportPlacement Pick2) = [None, None, None]
   \<and> map sl_player (getComputerSupportPlacement Pick3) = [None, None, None]
   \<and> calculateBaseStrength (newComputerUnit (exampleIds 0) INFANTRY (3, 1))
        (gs_computerSupport (initialComputerSetup initialGameState computerZone exampleIds Pick0)) = 1
   \<and> calculateBaseStrength (newComputerUnit (exampleIds 0) INFANTRY (3, 1))
        (map (\<lambda>sl. sl\<lparr>sl_player := Some Computer\<rparr>) (getComputerSupportPlacement Pick0)) = 2"
proof -
  have a: "gs_computerSupport (initialComputerSetup g z ids p) = getComputerSupportPlacement p"
    for g z ids p
    by (simp add: initialComputerSetup_def Let_def)
  have b: "map sl_player (getComputerSupportPlacement p) = [None, None, None]" for p
    by (cases p) (simp_all add: bareLine_def)
  have c: "calculateBaseStrength (newComputerUnit i INFANTRY (3, 1))
             (getComputerSupportPlacement Pick0) = 1" for i
    by (simp add: calculateBaseStrength_def newComputerUnit_def bareLine_def)
  have d: "calculateBaseStrength (newComputerUnit i INFANTRY (3, 1))
        (map (\<lambda>sl. sl\<lparr>sl_player := Some Computer\<rparr>) (getComputerSupportPlacement Pick0)) = 2" for i
    by (simp add: calculateBaseStrength_def newComputerUnit_def bareLine_def)
  have e: "getComputerSupportPlacement Pick0 = [bareLine Col 3, bareLine Col 4, bareLine Col 5]"
    by simp
  show ?thesis
    using a [of initialGameState computerZone exampleIds Pick0]
          b [of Pick0] b [of Pick1] b [of Pick2] b [of Pick3]
          c [of "exampleIds 0"] d [of "exampleIds 0"] e
    by (simp only: simp_thms)
qed

end
